theory Spec2Isabelle
  imports Main "HOL-Library.AList" "HOL-Library.Sublist" "HOL-Library.Code_Target_Nat"
begin

section \<open>ApprovalManager (src/tools/approval.ts)\<close>

text \<open>
  A pending request, as the type \<^verbatim>\<open>PendingTool\<close> declares it. The payload
  \<^verbatim>\<open>args: unknown\<close> is a type parameter. The field \<^verbatim>\<open>id\<close> is named
  \<open>ident\<close>, since \<open>id\<close> is the identity function of HOL.
\<close>

record 'a PendingTool =
  ident :: string
  tool :: string
  args :: 'a
  at :: string

text \<open>
  A listener is a callback \<^verbatim>\<open>(id, approved) => void\<close> of the caller: a function object,
  with an identity (of type \<open>'l\<close>) and a body. What matters of the body to the manager is
  whether the call returns or throws: \<open>None\<close> when it returns, \<open>Some e\<close> when it throws
  an exception whose message is \<open>e\<close>. The body is taken to depend on its arguments only
  and not to call the manager itself. The same function can be registered more than once.
\<close>

datatype 'l listener = Listener 'l "string \<Rightarrow> bool \<Rightarrow> string option"

fun call :: "'l listener \<Rightarrow> string \<Rightarrow> bool \<Rightarrow> string option" where
  "call (Listener _ body) i outcome = body i outcome"

text \<open>
  The manager holds the map \<^verbatim>\<open>pending\<close> and the array \<^verbatim>\<open>listeners\<close>.
  A JavaScript \<^verbatim>\<open>Map\<close> keeps its keys in insertion order, so the map is an
  association list: \<open>AList.update\<close> overwrites a key in place or appends a new one, as
  \<^verbatim>\<open>Map.set\<close> does, and \<open>AList.delete\<close> is \<^verbatim>\<open>Map.delete\<close>.
  \<open>calls\<close> is the sequence of invocations of listeners made so far (which listener, with
  which id and outcome), oldest first.
\<close>

record ('a, 'l) ApprovalManager =
  pending :: "(string \<times> 'a PendingTool) list"
  listeners :: "'l listener list"
  calls :: "('l listener \<times> string \<times> bool) list"

definition new_ApprovalManager :: "('a, 'l) ApprovalManager" where
  "new_ApprovalManager = \<lparr>pending = [], listeners = [], calls = []\<rparr>"

text \<open>
  \<^verbatim>\<open>add(tool, args)\<close>. The results of \<^verbatim>\<open>randomUUID()\<close> and of
  \<^verbatim>\<open>new Date().toISOString()\<close> come from the environment and are parameters.
\<close>

definition add ::
  "string \<Rightarrow> string \<Rightarrow> string \<Rightarrow> 'a \<Rightarrow> ('a, 'l) ApprovalManager \<Rightarrow> string \<times> ('a, 'l) ApprovalManager" where
  "add uuid now t a m =
     (uuid, m\<lparr>pending := AList.update uuid \<lparr>ident = uuid, tool = t, args = a, at = now\<rparr> (pending m)\<rparr>)"

definition get :: "string \<Rightarrow> ('a, 'l) ApprovalManager \<Rightarrow> 'a PendingTool option" where
  "get i m = map_of (pending m) i"

definition list :: "('a, 'l) ApprovalManager \<Rightarrow> 'a PendingTool list" where
  "list m = map snd (pending m)"

text \<open>
  \<^verbatim>\<open>listeners.forEach((fn) => fn(id, outcome))\<close>: the listeners are called in the order
  of the array. There is no \<^verbatim>\<open>try\<close>: when a call throws, the loop ends there, the
  listeners after it are not called, and the exception goes on to the caller. The result
  is the exception, if any, and the calls made.
\<close>

fun forEach ::
  "'l listener list \<Rightarrow> string \<Rightarrow> bool \<Rightarrow> ('l listener \<times> string \<times> bool) list
   \<Rightarrow> string option \<times> ('l listener \<times> string \<times> bool) list" where
  "forEach [] i outcome cs = (None, cs)"
| "forEach (fn # fns) i outcome cs =
     (case call fn i outcome of
        Some e \<Rightarrow> (Some e, cs @ [(fn, i, outcome)])
      | None \<Rightarrow> forEach fns i outcome (cs @ [(fn, i, outcome)]))"

definition notify ::
  "string \<Rightarrow> bool \<Rightarrow> ('a, 'l) ApprovalManager \<Rightarrow> string option \<times> ('a, 'l) ApprovalManager" where
  "notify i outcome m =
     (case forEach (listeners m) i outcome (calls m) of (thrown, cs) \<Rightarrow> (thrown, m\<lparr>calls := cs\<rparr>))"

definition approve ::
  "string \<Rightarrow> ('a, 'l) ApprovalManager
   \<Rightarrow> (string + 'a PendingTool option) \<times> ('a, 'l) ApprovalManager" where
  "approve i m =
     (case map_of (pending m) i of
        None \<Rightarrow> (Inr None, m)
      | Some p \<Rightarrow>
          (case notify i True (m\<lparr>pending := AList.delete i (pending m)\<rparr>) of
             (Some e, m') \<Rightarrow> (Inl e, m')
           | (None, m') \<Rightarrow> (Inr (Some p), m')))"

definition reject ::
  "string \<Rightarrow> ('a, 'l) ApprovalManager \<Rightarrow> (string + bool) \<times> ('a, 'l) ApprovalManager" where
  "reject i m =
     (case map_of (pending m) i of
        None \<Rightarrow> (Inr False, m)
      | Some p \<Rightarrow>
          (case notify i False (m\<lparr>pending := AList.delete i (pending m)\<rparr>) of
             (Some e, m') \<Rightarrow> (Inl e, m')
           | (None, m') \<Rightarrow> (Inr True, m')))"

definition onResolve :: "'l listener \<Rightarrow> ('a, 'l) ApprovalManager \<Rightarrow> ('a, 'l) ApprovalManager" where
  "onResolve fn m = m\<lparr>listeners := listeners m @ [fn]\<rparr>"

text \<open>No listener of the list throws when called with this id and outcome.\<close>

definition quiet :: "'l listener list \<Rightarrow> string \<Rightarrow> bool \<Rightarrow> bool" where
  "quiet fns i outcome \<longleftrightarrow> list_all (\<lambda>fn. call fn i outcome = None) fns"

lemma map_of_update_same: "map_of (AList.update k v al) k = Some v"
  by (simp add: update_conv')

lemma map_of_delete_same: "map_of (AList.delete k al) k = None"
  by (simp add: delete_conv')

lemma delete_after_update: "AList.delete k (AList.update k v al) = AList.delete k al"
  by (induction al) auto

lemma delete_as_filter: "AList.delete k al = filter (\<lambda>(k', _). k' \<noteq> k) al"
  by (induction al) auto

lemma delete_absent: "map_of al k = None \<Longrightarrow> AList.delete k al = al"
  by (induction al) (auto split: if_splits)

lemma count_list_map_inj:
  "inj f \<Longrightarrow> count_list (map f xs) (f x) = count_list xs x"
  by (induction xs) (auto dest: injD)

lemma forEach_quiet:
  "quiet fns i b \<Longrightarrow> forEach fns i b cs = (None, cs @ map (\<lambda>fn. (fn, i, b)) fns)"
  by (induction fns arbitrary: cs) (auto simp: quiet_def)

lemma forEach_thrown:
  "quiet xs i b \<Longrightarrow> call fn i b = Some e \<Longrightarrow>
   forEach (xs @ fn # ys) i b cs = (Some e, cs @ map (\<lambda>g. (g, i, b)) (xs @ [fn]))"
  by (induction xs arbitrary: cs) (auto simp: quiet_def)

lemma forEach_not_quiet:
  "\<not> quiet fns i b \<Longrightarrow> \<exists>e cs'. forEach fns i b cs = (Some e, cs')"
  by (induction fns arbitrary: cs) (auto simp: quiet_def split: option.splits)

lemma notify_fields:
  "pending (snd (notify i b m)) = pending m" "listeners (snd (notify i b m)) = listeners m"
  by (simp_all add: notify_def split: prod.splits)

lemma approve_fields:
  "pending (snd (approve i m)) = AList.delete i (pending m)"
  "listeners (snd (approve i m)) = listeners m"
proof -
  have "AList.delete i (pending m) = pending m" if "map_of (pending m) i = None"
    using that by (rule delete_absent)
  then show "pending (snd (approve i m)) = AList.delete i (pending m)"
    using notify_fields(1) [of i True "m\<lparr>pending := AList.delete i (pending m)\<rparr>"]
    by (auto simp: approve_def split: option.splits prod.splits)
  show "listeners (snd (approve i m)) = listeners m"
    using notify_fields(2) [of i True "m\<lparr>pending := AList.delete i (pending m)\<rparr>"]
    by (auto simp: approve_def split: option.splits prod.splits)
qed

lemma reject_fields:
  "pending (snd (reject i m)) = AList.delete i (pending m)"
  "listeners (snd (reject i m)) = listeners m"
proof -
  have "AList.delete i (pending m) = pending m" if "map_of (pending m) i = None"
    using that by (rule delete_absent)
  then show "pending (snd (reject i m)) = AList.delete i (pending m)"
    using notify_fields(1) [of i False "m\<lparr>pending := AList.delete i (pending m)\<rparr>"]
    by (auto simp: reject_def split: option.splits prod.splits)
  show "listeners (snd (reject i m)) = listeners m"
    using notify_fields(2) [of i False "m\<lparr>pending := AList.delete i (pending m)\<rparr>"]
    by (auto simp: reject_def split: option.splits prod.splits)
qed

lemma approve_pending_quiet:
  "map_of (pending m) i = Some p \<Longrightarrow> quiet (listeners m) i True \<Longrightarrow>
   approve i m = (Inr (Some p), m\<lparr>pending := AList.delete i (pending m),
                                   calls := calls m @ map (\<lambda>fn. (fn, i, True)) (listeners m)\<rparr>)"
  by (simp add: approve_def notify_def forEach_quiet)

lemma reject_pending_quiet:
  "map_of (pending m) i = Some p \<Longrightarrow> quiet (listeners m) i False \<Longrightarrow>
   reject i m = (Inr True, m\<lparr>pending := AList.delete i (pending m),
                              calls := calls m @ map (\<lambda>fn. (fn, i, False)) (listeners m)\<rparr>)"
  by (simp add: reject_def notify_def forEach_quiet)

lemma approve_pending_thrown:
  "map_of (pending m) i = Some p \<Longrightarrow> listeners m = xs @ fn # ys \<Longrightarrow> quiet xs i True \<Longrightarrow>
   call fn i True = Some e \<Longrightarrow>
   approve i m = (Inl e, m\<lparr>pending := AList.delete i (pending m),
                           calls := calls m @ map (\<lambda>g. (g, i, True)) (xs @ [fn])\<rparr>)"
  by (simp add: approve_def notify_def forEach_thrown)

lemma reject_pending_thrown:
  "map_of (pending m) i = Some p \<Longrightarrow> listeners m = xs @ fn # ys \<Longrightarrow> quiet xs i False \<Longrightarrow>
   call fn i False = Some e \<Longrightarrow>
   reject i m = (Inl e, m\<lparr>pending := AList.delete i (pending m),
                          calls := calls m @ map (\<lambda>g. (g, i, False)) (xs @ [fn])\<rparr>)"
  by (simp add: reject_def notify_def forEach_thrown)

lemma approve_pending_not_quiet:
  "map_of (pending m) i = Some p \<Longrightarrow> \<not> quiet (listeners m) i True \<Longrightarrow> \<exists>e. fst (approve i m) = Inl e"
  using forEach_not_quiet [of "listeners m" i True "calls m"]
  by (auto simp: approve_def notify_def)

lemma not_pending:
  "map_of (pending m) i = None \<Longrightarrow> approve i m = (Inr None, m)"
  "map_of (pending m) i = None \<Longrightarrow> reject i m = (Inr False, m)"
  by (simp_all add: approve_def reject_def)

text \<open>
  C5. A pending id is resolved at most once. After \<open>add\<close> returns an id, the record is
  pending under it. \<open>approve\<close> on that id removes it in every case: the id is no longer in
  the map and \<open>list\<close> is what it was without that key. It returns the record that was
  submitted when no registered listener throws; when one throws, \<open>approve\<close> throws too and
  the record is not returned. A second \<open>approve\<close> on the same id returns nothing and leaves
  the manager as it is, and so does \<open>reject\<close>, which returns false. \<open>reject\<close> (and
  \<open>approve\<close>) on an id that is not pending returns false (nothing) and changes nothing;
  after any \<open>approve\<close> or \<open>reject\<close> the id is not pending.
\<close>

theorem C5_resolved_at_most_once:
  fixes m :: "('a, 'l) ApprovalManager" and u now t j :: string and a :: 'a
  defines "r \<equiv> \<lparr>ident = u, tool = t, args = a, at = now\<rparr>"
  defines "m1 \<equiv> snd (add u now t a m)"
  defines "m2 \<equiv> snd (approve u m1)"
  shows "fst (add u now t a m) = u
    \<and> get u m1 = Some r
    \<and> (quiet (listeners m) u True \<longrightarrow> fst (approve u m1) = Inr (Some r))
    \<and> (\<not> quiet (listeners m) u True \<longrightarrow> (\<exists>e. fst (approve u m1) = Inl e))
    \<and> get u m2 = None
    \<and> list m2 = map snd (filter (\<lambda>(k, _). k \<noteq> u) (pending m))
    \<and> approve u m2 = (Inr None, m2)
    \<and> reject u m2 = (Inr False, m2)
    \<and> (get j m = None \<longrightarrow> reject j m = (Inr False, m) \<and> approve j m = (Inr None, m))
    \<and> get j (snd (approve j m)) = None
    \<and> get j (snd (reject j m)) = None"
proof -
  have pend1: "pending m1 = AList.update u r (pending m)" and lis1: "listeners m1 = listeners m"
    by (simp_all add: m1_def add_def r_def)
  have look1: "map_of (pending m1) u = Some r"
    by (simp add: pend1 map_of_update_same)
  have c1: "fst (add u now t a m) = u" by (simp add: add_def)
  have c2: "get u m1 = Some r" by (simp add: get_def look1)
  have c3: "quiet (listeners m) u True \<longrightarrow> fst (approve u m1) = Inr (Some r)"
    using approve_pending_quiet [OF look1] by (simp add: lis1)
  have c4: "\<not> quiet (listeners m) u True \<longrightarrow> (\<exists>e. fst (approve u m1) = Inl e)"
    using approve_pending_not_quiet [OF look1] by (simp add: lis1)
  have pend2: "pending m2 = AList.delete u (pending m)"
    unfolding m2_def by (simp add: approve_fields pend1 delete_after_update)
  have look2: "map_of (pending m2) u = None"
    by (simp add: pend2 map_of_delete_same)
  have c5: "get u m2 = None" by (simp add: get_def look2)
  have c6: "list m2 = map snd (filter (\<lambda>(k, _). k \<noteq> u) (pending m))"
    by (simp add: list_def pend2 delete_as_filter)
  have c7: "approve u m2 = (Inr None, m2)" and c8: "reject u m2 = (Inr False, m2)"
    using look2 by (simp_all add: not_pending)
  have c9: "get j m = None \<longrightarrow> reject j m = (Inr False, m) \<and> approve j m = (Inr None, m)"
    by (simp add: get_def not_pending)
  have c10: "get j (snd (approve j m)) = None" and c11: "get j (snd (reject j m)) = None"
    by (simp_all add: get_def approve_fields reject_fields map_of_delete_same)
  show ?thesis
    using c1 c2 c3 c4 c5 c6 c7 c8 c9 c10 c11 by (intro conjI) assumption+
qed

text \<open>Three listeners: two that return, one that throws.\<close>

definition quietListener :: "string listener" where
  "quietListener = Listener ''log'' (\<lambda>i outcome. None)"

definition throwingListener :: "string listener" where
  "throwingListener = Listener ''bad'' (\<lambda>i outcome. Some ''boom'')"

definition secondListener :: "string listener" where
  "secondListener = Listener ''second'' (\<lambda>i outcome. None)"

theorem C5_resolved_at_most_once_witness:
  "get ''id-2'' (onResolve quietListener (new_ApprovalManager :: (nat, string) ApprovalManager)) = None
   \<and> reject ''id-2'' (onResolve quietListener (new_ApprovalManager :: (nat, string) ApprovalManager))
       = (Inr False, onResolve quietListener new_ApprovalManager)
   \<and> quiet (listeners (onResolve quietListener (new_ApprovalManager :: (nat, string) ApprovalManager)))
        ''id-1'' True
   \<and> fst (approve ''id-1'' (snd (add ''id-1'' ''t0'' ''file.write'' (7::nat)
         (onResolve quietListener new_ApprovalManager))))
       = Inr (Some \<lparr>ident = ''id-1'', tool = ''file.write'', args = 7, at = ''t0''\<rparr>)
   \<and> list (snd (approve ''id-1'' (snd (add ''id-1'' ''t0'' ''file.write'' (7::nat)
         (onResolve quietListener new_ApprovalManager))))) = []
   \<and> \<not> quiet (listeners (onResolve throwingListener (new_ApprovalManager :: (nat, string) ApprovalManager)))
        ''id-1'' True
   \<and> (\<exists>e. fst (approve ''id-1'' (snd (add ''id-1'' ''t0'' ''file.write'' (7::nat)
         (onResolve throwingListener new_ApprovalManager)))) = Inl e)"
proof -
  let ?q = "onResolve quietListener (new_ApprovalManager :: (nat, string) ApprovalManager)"
  let ?t = "onResolve throwingListener (new_ApprovalManager :: (nat, string) ApprovalManager)"
  have h1: "get ''id-2'' ?q = None"
    by (simp add: get_def onResolve_def new_ApprovalManager_def)
  have h2: "quiet (listeners ?q) ''id-1'' True"
    by (simp add: quiet_def onResolve_def new_ApprovalManager_def quietListener_def)
  have h3: "\<not> quiet (listeners ?t) ''id-1'' True"
    by (simp add: quiet_def onResolve_def new_ApprovalManager_def throwingListener_def)
  have p: "pending ?q = []"
    by (simp add: onResolve_def new_ApprovalManager_def)
  note q = C5_resolved_at_most_once [of "''id-1''" "''t0''" "''file.write''" "7::nat" ?q "''id-2''"]
  note t = C5_resolved_at_most_once [of "''id-1''" "''t0''" "''file.write''" "7::nat" ?t "''id-2''"]
  have r1: "reject ''id-2'' ?q = (Inr False, ?q)"
    using q h1 by blast
  have r2: "fst (approve ''id-1'' (snd (add ''id-1'' ''t0'' ''file.write'' (7::nat) ?q)))
       = Inr (Some \<lparr>ident = ''id-1'', tool = ''file.write'', args = 7, at = ''t0''\<rparr>)"
    using q h2 by blast
  have "list (snd (approve ''id-1'' (snd (add ''id-1'' ''t0'' ''file.write'' (7::nat) ?q))))
       = map snd (filter (\<lambda>(k, _). k \<noteq> ''id-1'') (pending ?q))"
    using q by blast
  then have r3: "list (snd (approve ''id-1'' (snd (add ''id-1'' ''t0'' ''file.write'' (7::nat) ?q)))) = []"
    by (simp only: p) simp
  have r4: "\<exists>e. fst (approve ''id-1'' (snd (add ''id-1'' ''t0'' ''file.write'' (7::nat) ?t))) = Inl e"
    using t h3 by blast
  show ?thesis
    using h1 r1 h2 r2 r3 h3 r4 by (intro conjI) assumption+
qed

text \<open>
  As C5 is written, \<open>add\<close> followed by \<open>approve\<close> returns the record. With a listener
  that throws it does not: the entry is removed, and \<open>approve\<close> throws.
\<close>

theorem C5_throwing_observer_counterexample:
  "get ''id-1'' (snd (add ''id-1'' ''t0'' ''file.write'' (7::nat)
       (onResolve throwingListener new_ApprovalManager)))
     = Some \<lparr>ident = ''id-1'', tool = ''file.write'', args = 7, at = ''t0''\<rparr>
   \<and> fst (approve ''id-1'' (snd (add ''id-1'' ''t0'' ''file.write'' (7::nat)
       (onResolve throwingListener new_ApprovalManager)))) = Inl ''boom''
   \<and> list (snd (approve ''id-1'' (snd (add ''id-1'' ''t0'' ''file.write'' (7::nat)
       (onResolve throwingListener new_ApprovalManager))))) = []"
  by (simp add: get_def list_def add_def approve_def notify_def onResolve_def new_ApprovalManager_def
      throwingListener_def)

text \<open>
  C7. Observers. When \<open>approve\<close> or \<open>reject\<close> resolves a pending id and no registered
  listener throws, the calls it makes are exactly one per registration, in registration
  order, each with the resolved id and the outcome (true for approve, false for reject):
  a listener is called as many times as it is registered. The calls are part of the state
  the operation returns (they are made before it returns). When a listener throws, the
  listeners registered before it and that one have been called, those after it are not,
  and the operation throws. On an id that is not pending nothing is resolved and no
  listener is called. \<open>onResolve\<close> makes no call: a listener registered after a resolution
  gets nothing for it, and is called on later resolutions.
\<close>

theorem C7_observers_once_per_resolution:
  fixes m :: "('a, 'l) ApprovalManager"
  shows "(get i m = Some p \<and> quiet (listeners m) i True \<longrightarrow>
        fst (approve i m) = Inr (Some p)
      \<and> calls (snd (approve i m)) = calls m @ map (\<lambda>fn. (fn, i, True)) (listeners m)
      \<and> (\<forall>fn. count_list (drop (length (calls m)) (calls (snd (approve i m)))) (fn, i, True)
            = count_list (listeners m) fn))
    \<and> (get i m = Some p \<and> quiet (listeners m) i False \<longrightarrow>
        fst (reject i m) = Inr True
      \<and> calls (snd (reject i m)) = calls m @ map (\<lambda>fn. (fn, i, False)) (listeners m)
      \<and> (\<forall>fn. count_list (drop (length (calls m)) (calls (snd (reject i m)))) (fn, i, False)
            = count_list (listeners m) fn))
    \<and> (get i m = Some p \<and> listeners m = xs @ bad # ys \<and> quiet xs i True \<and> call bad i True = Some e \<longrightarrow>
        fst (approve i m) = Inl e
      \<and> calls (snd (approve i m)) = calls m @ map (\<lambda>fn. (fn, i, True)) (xs @ [bad]))
    \<and> (get i m = Some p \<and> listeners m = xs @ bad # ys \<and> quiet xs i False \<and> call bad i False = Some e \<longrightarrow>
        fst (reject i m) = Inl e
      \<and> calls (snd (reject i m)) = calls m @ map (\<lambda>fn. (fn, i, False)) (xs @ [bad]))
    \<and> (get i m = None \<longrightarrow>
        calls (snd (approve i m)) = calls m \<and> calls (snd (reject i m)) = calls m)
    \<and> listeners (snd (approve i m)) = listeners m
    \<and> listeners (snd (reject i m)) = listeners m
    \<and> calls (onResolve g m) = calls m
    \<and> listeners (onResolve g m) = listeners m @ [g]
    \<and> pending (onResolve g m) = pending m"
proof -
  have inj: "inj (\<lambda>fn. (fn, i, b))" for b :: bool
    by (simp add: inj_on_def)
  have cnt: "count_list (map (\<lambda>fn. (fn, i, b)) (listeners m)) (fn, i, b) = count_list (listeners m) fn"
    for fn and b :: bool
    using count_list_map_inj [OF inj, of b "listeners m" fn] .
  have c1: "get i m = Some p \<and> quiet (listeners m) i True \<longrightarrow>
        fst (approve i m) = Inr (Some p)
      \<and> calls (snd (approve i m)) = calls m @ map (\<lambda>fn. (fn, i, True)) (listeners m)
      \<and> (\<forall>fn. count_list (drop (length (calls m)) (calls (snd (approve i m)))) (fn, i, True)
            = count_list (listeners m) fn)"
    by (simp add: get_def approve_pending_quiet cnt)
  have c2: "get i m = Some p \<and> quiet (listeners m) i False \<longrightarrow>
        fst (reject i m) = Inr True
      \<and> calls (snd (reject i m)) = calls m @ map (\<lambda>fn. (fn, i, False)) (listeners m)
      \<and> (\<forall>fn. count_list (drop (length (calls m)) (calls (snd (reject i m)))) (fn, i, False)
            = count_list (listeners m) fn)"
    by (simp add: get_def reject_pending_quiet [where p = p] cnt)
  have c3: "get i m = Some p \<and> listeners m = xs @ bad # ys \<and> quiet xs i True \<and> call bad i True = Some e \<longrightarrow>
        fst (approve i m) = Inl e
      \<and> calls (snd (approve i m)) = calls m @ map (\<lambda>fn. (fn, i, True)) (xs @ [bad])"
    using approve_pending_thrown [of m i p xs bad ys e] by (simp add: get_def)
  have c4: "get i m = Some p \<and> listeners m = xs @ bad # ys \<and> quiet xs i False \<and> call bad i False = Some e \<longrightarrow>
        fst (reject i m) = Inl e
      \<and> calls (snd (reject i m)) = calls m @ map (\<lambda>fn. (fn, i, False)) (xs @ [bad])"
    using reject_pending_thrown [of m i p xs bad ys e] by (simp add: get_def)
  have c5: "get i m = None \<longrightarrow>
        calls (snd (approve i m)) = calls m \<and> calls (snd (reject i m)) = calls m"
    by (simp add: get_def not_pending)
  have c6: "listeners (snd (approve i m)) = listeners m" and c7: "listeners (snd (reject i m)) = listeners m"
    by (simp_all add: approve_fields reject_fields)
  have c8: "calls (onResolve g m) = calls m" and c9: "listeners (onResolve g m) = listeners m @ [g]"
    and c10: "pending (onResolve g m) = pending m"
    by (simp_all add: onResolve_def)
  show ?thesis
    using c1 c2 c3 c4 c5 c6 c7 c8 c9 c10 by (intro conjI) assumption+
qed

text \<open>
  A manager with one pending entry and three registrations of two listeners that return,
  and one in which the second of three listeners throws.
\<close>

definition observedManager :: "(nat, string) ApprovalManager" where
  "observedManager =
     snd (add ''id-1'' ''t0'' ''file.write'' 7
       (onResolve quietListener (onResolve secondListener (onResolve quietListener new_ApprovalManager))))"

definition brokenManager :: "(nat, string) ApprovalManager" where
  "brokenManager =
     snd (add ''id-1'' ''t0'' ''file.write'' 7
       (onResolve secondListener (onResolve throwingListener (onResolve quietListener new_ApprovalManager))))"

theorem C7_observers_once_per_resolution_witness:
  "get ''id-1'' observedManager = Some \<lparr>ident = ''id-1'', tool = ''file.write'', args = 7, at = ''t0''\<rparr>
   \<and> quiet (listeners observedManager) ''id-1'' False
   \<and> fst (reject ''id-1'' observedManager) = Inr True
   \<and> calls (snd (reject ''id-1'' observedManager))
     = [(quietListener, ''id-1'', False), (secondListener, ''id-1'', False), (quietListener, ''id-1'', False)]
   \<and> get ''id-1'' brokenManager = Some \<lparr>ident = ''id-1'', tool = ''file.write'', args = 7, at = ''t0''\<rparr>
   \<and> listeners brokenManager = [quietListener] @ throwingListener # [secondListener]
   \<and> quiet [quietListener] ''id-1'' True
   \<and> call throwingListener ''id-1'' True = Some ''boom''
   \<and> fst (approve ''id-1'' brokenManager) = Inl ''boom''
   \<and> calls (snd (approve ''id-1'' brokenManager))
     = [(quietListener, ''id-1'', True), (throwingListener, ''id-1'', True)]"
proof -
  let ?p = "\<lparr>ident = ''id-1'', tool = ''file.write'', args = 7::nat, at = ''t0''\<rparr>"
  have lo: "listeners observedManager = [quietListener, secondListener, quietListener]"
    and co: "calls observedManager = []"
    by (simp_all add: observedManager_def add_def onResolve_def new_ApprovalManager_def)
  have lb: "listeners brokenManager = [quietListener] @ throwingListener # [secondListener]"
    and cb: "calls brokenManager = []"
    by (simp_all add: brokenManager_def add_def onResolve_def new_ApprovalManager_def)
  have a1: "get ''id-1'' observedManager = Some ?p"
    by (simp add: observedManager_def get_def add_def onResolve_def new_ApprovalManager_def)
  have a2: "quiet (listeners observedManager) ''id-1'' False"
    by (simp add: lo quiet_def quietListener_def secondListener_def)
  have b1: "get ''id-1'' brokenManager = Some ?p"
    by (simp add: brokenManager_def get_def add_def onResolve_def new_ApprovalManager_def)
  have b2: "quiet [quietListener] ''id-1'' True"
    by (simp add: quiet_def quietListener_def)
  have b3: "call throwingListener ''id-1'' True = Some ''boom''"
    by (simp add: throwingListener_def)
  note o = C7_observers_once_per_resolution [of "''id-1''" observedManager ?p]
  note b = C7_observers_once_per_resolution
    [of "''id-1''" brokenManager ?p "[quietListener]" throwingListener "[secondListener]" "''boom''"]
  have r1: "fst (reject ''id-1'' observedManager) = Inr True"
    using o a1 a2 by blast
  have "calls (snd (reject ''id-1'' observedManager))
      = calls observedManager @ map (\<lambda>fn. (fn, ''id-1'', False)) (listeners observedManager)"
    using o a1 a2 by blast
  then have r2: "calls (snd (reject ''id-1'' observedManager))
     = [(quietListener, ''id-1'', False), (secondListener, ''id-1'', False), (quietListener, ''id-1'', False)]"
    by (simp only: lo co) simp
  have r3: "fst (approve ''id-1'' brokenManager) = Inl ''boom''"
    using b b1 lb b2 b3 by blast
  have "calls (snd (approve ''id-1'' brokenManager))
      = calls brokenManager @ map (\<lambda>fn. (fn, ''id-1'', True)) ([quietListener] @ [throwingListener])"
    using b b1 lb b2 b3 by blast
  then have r4: "calls (snd (approve ''id-1'' brokenManager))
     = [(quietListener, ''id-1'', True), (throwingListener, ''id-1'', True)]"
    by (simp only: cb) simp
  show ?thesis
    using a1 a2 r1 r2 b1 lb b2 b3 r3 r4 by (intro conjI) assumption+
qed

text \<open>
  As C7 is written, every registered observer is called once per resolution. Here the
  second listener throws: the third is never called, for \<open>approve\<close> as for \<open>reject\<close>,
  and the operation throws after the entry is removed.
\<close>

theorem C7_throwing_observer_counterexample:
  "listeners brokenManager = [quietListener, throwingListener, secondListener]
   \<and> get ''id-1'' brokenManager = Some \<lparr>ident = ''id-1'', tool = ''file.write'', args = 7, at = ''t0''\<rparr>
   \<and> fst (approve ''id-1'' brokenManager) = Inl ''boom''
   \<and> get ''id-1'' (snd (approve ''id-1'' brokenManager)) = None
   \<and> calls (snd (approve ''id-1'' brokenManager))
     = [(quietListener, ''id-1'', True), (throwingListener, ''id-1'', True)]
   \<and> count_list (calls (snd (approve ''id-1'' brokenManager))) (secondListener, ''id-1'', True) = 0
   \<and> fst (reject ''id-1'' brokenManager) = Inl ''boom''
   \<and> count_list (calls (snd (reject ''id-1'' brokenManager))) (secondListener, ''id-1'', False) = 0"
  by (simp add: brokenManager_def get_def add_def approve_def reject_def notify_def onResolve_def
      new_ApprovalManager_def throwingListener_def quietListener_def secondListener_def)

section \<open>Strings\<close>

text \<open>
  A JavaScript string is a sequence of UTF-16 code units. A path, a tool name, an id or a
  message is a \<^typ>\<open>string\<close> here, whose characters stand for the code units 0 to 255,
  which covers every character the path checks of the program look at. The text of a file
  is a \<open>jsstring\<close>, the sequence of its code units as numbers, and what a file holds is
  a sequence of bytes (section on UTF-8 below).
\<close>

definition backslash :: char where
  "backslash = CHR 0x5C"

text \<open>The code units below 256 that \<^verbatim>\<open>String.prototype.trim\<close> removes.\<close>

definition isWhiteSpace :: "char \<Rightarrow> bool" where
  "isWhiteSpace c \<longleftrightarrow>
     c = CHR 0x09 \<or> c = CHR 0x0A \<or> c = CHR 0x0B \<or> c = CHR 0x0C \<or> c = CHR 0x0D
     \<or> c = CHR 0x20 \<or> c = CHR 0xA0"

definition trim :: "string \<Rightarrow> string" where
  "trim s = rev (dropWhile isWhiteSpace (rev (dropWhile isWhiteSpace s)))"

text \<open>\<^verbatim>\<open>s.startsWith(t)\<close>\<close>

definition startsWith :: "string \<Rightarrow> string \<Rightarrow> bool" where
  "startsWith s t = prefix t s"

text \<open>\<^verbatim>\<open>s.split(sep)\<close> for a separator of one character.\<close>

fun js_split :: "char \<Rightarrow> string \<Rightarrow> string list" where
  "js_split sep [] = [[]]"
| "js_split sep (c # cs) =
     (if c = sep then [] # js_split sep cs
      else (case js_split sep cs of [] \<Rightarrow> [[c]] | w # ws \<Rightarrow> (c # w) # ws))"

text \<open>Segments put together with \<open>/\<close> between them.\<close>

fun joinSegs :: "string list \<Rightarrow> string" where
  "joinSegs [] = []"
| "joinSegs [s] = s"
| "joinSegs (s # t # ts) = s @ CHR ''/'' # joinSegs (t # ts)"


section \<open>Texts and UTF-8\<close>

text \<open>
  The text the program writes and reads is a JavaScript string: a sequence of UTF-16 code
  units, each a number below \<open>0x10000\<close>. A file holds bytes, each a number below 256.
  \<open>units\<close> gives the code units of a literal.
\<close>

type_synonym jsstring = "nat list"

type_synonym bytes = "nat list"

definition units :: "string \<Rightarrow> jsstring" where
  "units s = map of_char s"

definition isHighSurrogate :: "nat \<Rightarrow> bool" where
  "isHighSurrogate u \<longleftrightarrow> 0xD800 \<le> u \<and> u \<le> 0xDBFF"

definition isLowSurrogate :: "nat \<Rightarrow> bool" where
  "isLowSurrogate u \<longleftrightarrow> 0xDC00 \<le> u \<and> u \<le> 0xDFFF"

text \<open>The UTF-8 bytes of a code point: one to four bytes.\<close>

definition encodeCodePoint :: "nat \<Rightarrow> bytes" where
  "encodeCodePoint cp =
     (if cp < 0x80 then [cp]
      else if cp < 0x800 then [0xC0 + cp div 64, 0x80 + cp mod 64]
      else if cp < 0x10000 then [0xE0 + cp div 4096, 0x80 + cp div 64 mod 64, 0x80 + cp mod 64]
      else [0xF0 + cp div 262144, 0x80 + cp div 4096 mod 64, 0x80 + cp div 64 mod 64,
            0x80 + cp mod 64])"

text \<open>
  Encoding a string as UTF-8, which is what \<^verbatim>\<open>writeFile(p, content, "utf-8")\<close> and
  \<^verbatim>\<open>Buffer.byteLength(content, "utf-8")\<close> do: a high surrogate followed by a low one
  is one code point above \<open>0xFFFF\<close>; a surrogate without its partner is replaced by
  \<open>U+FFFD\<close>.
\<close>

definition unpaired :: "nat \<Rightarrow> nat" where
  "unpaired u = (if isHighSurrogate u \<or> isLowSurrogate u then 0xFFFD else u)"

fun utf8_encode :: "jsstring \<Rightarrow> bytes" where
  "utf8_encode [] = []"
| "utf8_encode [u] = encodeCodePoint (unpaired u)"
| "utf8_encode (u # v # us) =
     (if isHighSurrogate u \<and> isLowSurrogate v
      then encodeCodePoint (0x10000 + (u - 0xD800) * 0x400 + (v - 0xDC00)) @ utf8_encode us
      else encodeCodePoint (unpaired u) @ utf8_encode (v # us))"

definition byteLength :: "jsstring \<Rightarrow> nat" where
  "byteLength s = length (utf8_encode s)"

text \<open>The code units of a code point: itself, or a surrogate pair.\<close>

definition codeUnits :: "nat \<Rightarrow> jsstring" where
  "codeUnits cp =
     (if cp < 0x10000 then [cp]
      else [0xD800 + (cp - 0x10000) div 0x400, 0xDC00 + (cp - 0x10000) mod 0x400])"

text \<open>
  Decoding UTF-8, which is what \<^verbatim>\<open>buf.toString("utf-8")\<close> does. \<open>needed\<close> is the number
  of continuation bytes still to come, \<open>cp\<close> the code point collected so far, and
  \<open>lower\<close> and \<open>upper\<close> the range allowed for the next byte (narrower after the lead
  bytes \<open>E0\<close>, \<open>ED\<close>, \<open>F0\<close> and \<open>F4\<close>, which excludes overlong forms, surrogates and
  code points above \<open>0x10FFFF\<close>). A byte that cannot start a sequence gives \<open>U+FFFD\<close>;
  a byte that cannot continue one gives \<open>U+FFFD\<close> for the sequence cut short and is
  looked at again as the start of the next; so does the end of the buffer inside a
  sequence. A byte order mark is kept.
\<close>

function decoder :: "nat \<Rightarrow> nat \<Rightarrow> nat \<Rightarrow> nat \<Rightarrow> bytes \<Rightarrow> jsstring" where
  "decoder needed cp lower upper [] = (if needed = 0 then [] else [0xFFFD])"
| "decoder needed cp lower upper (b # bs) =
     (if needed = 0 then
        (if b < 0x80 then b # decoder 0 0 0x80 0xBF bs
         else if 0xC2 \<le> b \<and> b \<le> 0xDF then decoder 1 (b mod 32) 0x80 0xBF bs
         else if 0xE0 \<le> b \<and> b \<le> 0xEF then
           decoder 2 (b mod 16) (if b = 0xE0 then 0xA0 else 0x80) (if b = 0xED then 0x9F else 0xBF) bs
         else if 0xF0 \<le> b \<and> b \<le> 0xF4 then
           decoder 3 (b mod 8) (if b = 0xF0 then 0x90 else 0x80) (if b = 0xF4 then 0x8F else 0xBF) bs
         else 0xFFFD # decoder 0 0 0x80 0xBF bs)
      else if b < lower \<or> upper < b then 0xFFFD # decoder 0 0 0x80 0xBF (b # bs)
      else if needed = 1 then codeUnits (cp * 64 + b mod 64) @ decoder 0 0 0x80 0xBF bs
      else decoder (needed - 1) (cp * 64 + b mod 64) 0x80 0xBF bs)"
  by pat_completeness auto
termination
  by (relation "measure (\<lambda>(needed, cp, lower, upper, bs). 2 * length bs + (if needed = 0 then 0 else 1))")
     auto

definition utf8_decode :: "bytes \<Rightarrow> jsstring" where
  "utf8_decode buf = decoder 0 0 0x80 0xBF buf"


subsection \<open>Decoding what was encoded\<close>

declare decoder.simps [simp del]













lemma utf8_encode_ascii: "u < 0x80 \<Longrightarrow> utf8_encode (u # us) = u # utf8_encode us"
  by (cases us) (simp_all add: unpaired_def isHighSurrogate_def isLowSurrogate_def encodeCodePoint_def)

lemma byteLength_replicate: "u < 0x80 \<Longrightarrow> byteLength (replicate n u) = n"
  by (induction n) (simp_all add: byteLength_def utf8_encode_ascii)

text \<open>Some encodings and decodings, among them ill-formed ones.\<close>

lemma utf8_examples:
  "utf8_encode (units ''abc'') = [0x61, 0x62, 0x63]
   \<and> utf8_encode [0x61, 0xE9, 0x20AC, 0xD83D, 0xDE00]
       = [0x61, 0xC3, 0xA9, 0xE2, 0x82, 0xAC, 0xF0, 0x9F, 0x98, 0x80]
   \<and> utf8_decode [0x61, 0xC3, 0xA9, 0xE2, 0x82, 0xAC, 0xF0, 0x9F, 0x98, 0x80]
       = [0x61, 0xE9, 0x20AC, 0xD83D, 0xDE00]
   \<and> utf8_encode [0xD800] = [0xEF, 0xBF, 0xBD]
   \<and> utf8_decode [0xEF, 0xBF, 0xBD] = [0xFFFD]
   \<and> utf8_decode [0xC0, 0x80, 0xE2, 0x82] = [0xFFFD, 0xFFFD, 0xFFFD]
   \<and> utf8_decode [0xED, 0xA0, 0x80] = [0xFFFD, 0xFFFD, 0xFFFD]
   \<and> utf8_decode [0xF0, 0x9F, 0x41] = [0xFFFD, 0x41]"
  by code_simp

section \<open>The path module of Node.js on a POSIX host\<close>

text \<open>
  The program calls \<^verbatim>\<open>path.resolve\<close>, \<^verbatim>\<open>path.relative\<close>, \<^verbatim>\<open>path.dirname\<close>,
  \<^verbatim>\<open>path.join\<close>, \<^verbatim>\<open>path.isAbsolute\<close>, \<^verbatim>\<open>path.sep\<close> and
  \<^verbatim>\<open>path.win32.isAbsolute\<close>. They are library functions; the definitions below follow
  the library's implementation for a POSIX host (\<^verbatim>\<open>path = path.posix\<close>, separator \<open>/\<close>).
  \<^verbatim>\<open>normalizeString\<close> and \<^verbatim>\<open>relative\<close> scan characters in the library; here they
  work on the segments between separators, which gives the same strings.
\<close>

definition isPathSeparator :: "char \<Rightarrow> bool" where
  "isPathSeparator c \<longleftrightarrow> c = CHR ''/'' \<or> c = backslash"

definition isWindowsDeviceRoot :: "char \<Rightarrow> bool" where
  "isWindowsDeviceRoot c \<longleftrightarrow>
     (let n = (of_char c :: nat) in (65 \<le> n \<and> n \<le> 90) \<or> (97 \<le> n \<and> n \<le> 122))"

text \<open>\<^verbatim>\<open>path.win32.isAbsolute\<close>: a leading separator, or a drive letter, a colon and a separator.\<close>

fun win32_isAbsolute :: "string \<Rightarrow> bool" where
  "win32_isAbsolute [] = False"
| "win32_isAbsolute (c # d # e # _) =
     (isPathSeparator c \<or> (isWindowsDeviceRoot c \<and> d = CHR '':'' \<and> isPathSeparator e))"
| "win32_isAbsolute (c # _) = isPathSeparator c"

fun posix_isAbsolute :: "string \<Rightarrow> bool" where
  "posix_isAbsolute [] = False"
| "posix_isAbsolute (c # _) = (c = CHR ''/'')"

text \<open>
  \<^verbatim>\<open>normalizeString\<close>: empty segments and \<open>.\<close> are dropped, \<open>..\<close> removes the segment
  before it; at the top, \<open>..\<close> is kept when \<open>allowAboveRoot\<close> holds and dropped otherwise.
  \<open>res\<close> is the result so far, last segment first.
\<close>

fun normalizeSegs :: "bool \<Rightarrow> string list \<Rightarrow> string list \<Rightarrow> string list" where
  "normalizeSegs allowAboveRoot res [] = rev res"
| "normalizeSegs allowAboveRoot res (seg # segs) =
     (if seg = [] \<or> seg = ''.'' then normalizeSegs allowAboveRoot res segs
      else if seg = ''..'' then
        (case res of
           r # rs \<Rightarrow>
             if r \<noteq> ''..'' then normalizeSegs allowAboveRoot rs segs
             else if allowAboveRoot then normalizeSegs allowAboveRoot (''..'' # res) segs
             else normalizeSegs allowAboveRoot res segs
         | [] \<Rightarrow>
             if allowAboveRoot then normalizeSegs allowAboveRoot [''..''] segs
             else normalizeSegs allowAboveRoot res segs)
      else normalizeSegs allowAboveRoot (seg # res) segs)"

definition normalizeString :: "string \<Rightarrow> bool \<Rightarrow> string" where
  "normalizeString path allowAboveRoot =
     joinSegs (normalizeSegs allowAboveRoot [] (js_split CHR ''/'' path))"

text \<open>
  The loop of \<^verbatim>\<open>path.resolve\<close>: it goes through the arguments from the last to the first
  and then the working directory, puts each non-empty one in front of the path built so
  far, and stops after the first absolute one.
\<close>

fun resolveLoop :: "string list \<Rightarrow> string \<Rightarrow> string \<times> bool" where
  "resolveLoop [] resolvedPath = (resolvedPath, False)"
| "resolveLoop ([] # rest) resolvedPath = resolveLoop rest resolvedPath"
| "resolveLoop ((c # cs) # rest) resolvedPath =
     (if c = CHR ''/'' then ((c # cs) @ CHR ''/'' # resolvedPath, True)
      else resolveLoop rest ((c # cs) @ CHR ''/'' # resolvedPath))"

text \<open>
  \<^verbatim>\<open>process.cwd()\<close> is an absolute path. The working directory is given by its
  segments, so that it is absolute by construction.
\<close>

definition process_cwd :: "string list \<Rightarrow> string" where
  "process_cwd cwd = CHR ''/'' # joinSegs cwd"

definition posix_resolve :: "string list \<Rightarrow> string list \<Rightarrow> string" where
  "posix_resolve cwd paths =
     (case resolveLoop (rev paths @ [process_cwd cwd]) [] of
        (resolvedPath, resolvedAbsolute) \<Rightarrow>
          let body = normalizeString resolvedPath (\<not> resolvedAbsolute) in
          if resolvedAbsolute then CHR ''/'' # body
          else if body \<noteq> [] then body else ''.'')"

definition pathSegs :: "string \<Rightarrow> string list" where
  "pathSegs p = filter (\<lambda>s. s \<noteq> []) (js_split CHR ''/'' p)"

text \<open>
  \<^verbatim>\<open>path.relative(from, to)\<close>: both paths are resolved; the result climbs with one
  \<open>..\<close> for every segment of \<open>from\<close> after the common part and then descends along the
  rest of \<open>to\<close>.
\<close>

definition posix_relative :: "string list \<Rightarrow> string \<Rightarrow> string \<Rightarrow> string" where
  "posix_relative cwd from to =
     (if from = to then []
      else
        let from' = posix_resolve cwd [from]; to' = posix_resolve cwd [to] in
        if from' = to' then []
        else
          let fromSegs = pathSegs from'; toSegs = pathSegs to';
              n = length (longest_common_prefix fromSegs toSegs)
          in joinSegs (replicate (length fromSegs - n) ''..'' @ drop n toSegs))"

text \<open>
  \<^verbatim>\<open>path.dirname\<close>: scanning from the end and never looking at the first character,
  it skips trailing separators and the last segment; \<open>end\<close> is the index of the
  separator before that segment.
\<close>

definition posix_dirname :: "string \<Rightarrow> string" where
  "posix_dirname path =
     (case path of
        [] \<Rightarrow> ''.''
      | c # cs \<Rightarrow>
          let hasRoot = (c = CHR ''/'');
              upto_end = dropWhile (\<lambda>x. x \<noteq> CHR ''/'') (dropWhile (\<lambda>x. x = CHR ''/'') (rev cs));
              end = length upto_end
          in if upto_end = [] then (if hasRoot then ''/'' else ''.'')
             else if hasRoot \<and> end = 1 then ''//''
             else take end path)"

definition posix_normalize :: "string \<Rightarrow> string" where
  "posix_normalize path =
     (if path = [] then ''.''
      else
        let isAbsolute = posix_isAbsolute path;
            trailingSeparator = (last path = CHR ''/'');
            p = normalizeString path (\<not> isAbsolute)
        in if p = [] then (if isAbsolute then ''/'' else if trailingSeparator then ''./'' else ''.'')
           else
             let p' = (if trailingSeparator then p @ ''/'' else p)
             in if isAbsolute then CHR ''/'' # p' else p')"

definition posix_join :: "string list \<Rightarrow> string" where
  "posix_join paths = posix_normalize (joinSegs (filter (\<lambda>a. a \<noteq> []) paths))"

section \<open>The file system\<close>

text \<open>
  The file system is outside the program. It is a finite table from absolute paths to
  what \<^verbatim>\<open>lstat\<close> finds there: a regular file with its bytes, a directory, or a symbolic
  link (or junction) with its target. Every call the program makes is recorded in
  \<open>syscalls\<close>, so that ``no access to the file system'' is a statement about the state.
  The failures of a call are those that follow from what is at the paths (nothing there,
  a file where a directory is needed, and so on); failures of the environment, such as
  missing permissions, are left out.
\<close>

datatype node = File bytes | Dir | Symlink string

datatype syscall =
  Lstat string | Mkdir string | ReadFile string | WriteFile string | Readdir string | Rm string

record world =
  files :: "(string \<times> node) list"
  syscalls :: "syscall list"

text \<open>
  The failures of the program. The first six are the \<^verbatim>\<open>Error\<close>s thrown by
  \<^verbatim>\<open>ensureInsideWorkspace\<close> and \<^verbatim>\<open>assertNotLinkOrReparse\<close>, then the one of
  \<^verbatim>\<open>readText\<close>; \<open>IOError\<close> is an error of the file system, with its code.
\<close>

datatype error =
  EmptyPath | AbsolutePath | DrivePath | UncPath | PathEscapesWorkspace
  | SymlinkNotAllowed string | FileTooLarge nat | IOError string

type_synonym 'a io = "world \<Rightarrow> (error + 'a) \<times> world"

definition return :: "'a \<Rightarrow> 'a io" where
  "return x w = (Inr x, w)"

definition throw :: "error \<Rightarrow> 'a io" where
  "throw e w = (Inl e, w)"

definition bind :: "'a io \<Rightarrow> ('a \<Rightarrow> 'b io) \<Rightarrow> 'b io" where
  "bind m f w = (case m w of (Inl e, w') \<Rightarrow> (Inl e, w') | (Inr x, w') \<Rightarrow> f x w')"

definition sys :: "syscall \<Rightarrow> world \<Rightarrow> world" where
  "sys c w = w\<lparr>syscalls := syscalls w @ [c]\<rparr>"

definition fs_lstat :: "string \<Rightarrow> node io" where
  "fs_lstat p w =
     (case map_of (files w) p of
        None \<Rightarrow> (Inl (IOError ''ENOENT''), sys (Lstat p) w)
      | Some n \<Rightarrow> (Inr n, sys (Lstat p) w))"

text \<open>The absolute path with the given segments.\<close>

definition render :: "string list \<Rightarrow> string" where
  "render segs = CHR ''/'' # joinSegs segs"

text \<open>The directories on the way to \<open>p\<close>, from the top down to \<open>p\<close> itself.\<close>

definition dir_chain :: "string \<Rightarrow> string list" where
  "dir_chain p = map render (prefixes (pathSegs p))"

text \<open>
  \<^verbatim>\<open>mkdir(p, { recursive: true })\<close> makes every directory of the chain that is missing.
  It fails on a regular file in the way; a link in the way is followed.
\<close>

fun mkdirs :: "string list \<Rightarrow> (string \<times> node) list \<Rightarrow> error + (string \<times> node) list" where
  "mkdirs [] fs = Inr fs"
| "mkdirs (d # ds) fs =
     (case map_of fs d of
        None \<Rightarrow> mkdirs ds (AList.update d Dir fs)
      | Some (File _) \<Rightarrow> Inl (IOError (if ds = [] then ''EEXIST'' else ''ENOTDIR''))
      | Some _ \<Rightarrow> mkdirs ds fs)"

definition fs_mkdir_recursive :: "string \<Rightarrow> unit io" where
  "fs_mkdir_recursive p w =
     (case mkdirs (dir_chain p) (files w) of
        Inl e \<Rightarrow> (Inl e, sys (Mkdir p) w)
      | Inr fs \<Rightarrow> (Inr (), (sys (Mkdir p) w)\<lparr>files := fs\<rparr>))"

text \<open>
  Opening a path follows the links at its end, at most \<open>n\<close> of them (the system stops
  with \<^verbatim>\<open>ELOOP\<close> after 40). The target of a link is an absolute path.
\<close>

fun follow :: "(string \<times> node) list \<Rightarrow> nat \<Rightarrow> string \<Rightarrow> string option" where
  "follow fs 0 p = None"
| "follow fs (Suc n) p =
     (case map_of fs p of Some (Symlink t) \<Rightarrow> follow fs n t | _ \<Rightarrow> Some p)"

definition fs_readFile :: "string \<Rightarrow> bytes io" where
  "fs_readFile p w =
     (let w' = sys (ReadFile p) w in
      case follow (files w) 40 p of
        None \<Rightarrow> (Inl (IOError ''ELOOP''), w')
      | Some q \<Rightarrow>
          (case map_of (files w) q of
             Some (File c) \<Rightarrow> (Inr c, w')
           | Some _ \<Rightarrow> (Inl (IOError ''EISDIR''), w')
           | None \<Rightarrow> (Inl (IOError ''ENOENT''), w')))"

text \<open>
  \<^verbatim>\<open>writeFile\<close> creates or overwrites the file the path leads to with the bytes given;
  the directory it is in has to exist.
\<close>

definition fs_writeFile :: "string \<Rightarrow> bytes \<Rightarrow> unit io" where
  "fs_writeFile p content w =
     (let w' = sys (WriteFile p) w in
      case follow (files w) 40 p of
        None \<Rightarrow> (Inl (IOError ''ELOOP''), w')
      | Some q \<Rightarrow>
          (case map_of (files w) q of
             Some Dir \<Rightarrow> (Inl (IOError ''EISDIR''), w')
           | _ \<Rightarrow>
               (case map_of (files w) (posix_dirname q) of
                  None \<Rightarrow> (Inl (IOError ''ENOENT''), w')
                | Some (File _) \<Rightarrow> (Inl (IOError ''ENOTDIR''), w')
                | Some _ \<Rightarrow> (Inr (), w'\<lparr>files := AList.update q (File content) (files w)\<rparr>))))"

text \<open>The name of \<open>q\<close> in the directory \<open>p\<close>, when \<open>q\<close> is directly in it.\<close>

definition child_name :: "string \<Rightarrow> string \<Rightarrow> string option" where
  "child_name p q =
     (let d = (if p = ''/'' then p else p @ ''/''); name = drop (length d) q in
      if prefix d q \<and> name \<noteq> [] \<and> CHR ''/'' \<notin> set name then Some name else None)"

definition children :: "(string \<times> node) list \<Rightarrow> string \<Rightarrow> (string \<times> node) list" where
  "children fs p =
     concat (map (\<lambda>(q, n). case child_name p q of None \<Rightarrow> [] | Some name \<Rightarrow> [(name, n)]) fs)"

text \<open>\<^verbatim>\<open>readdir(p, { withFileTypes: true })\<close>: the entries with their kinds, in stored order.\<close>

definition fs_readdir :: "string \<Rightarrow> (string \<times> node) list io" where
  "fs_readdir p w =
     (let w' = sys (Readdir p) w in
      case follow (files w) 40 p of
        None \<Rightarrow> (Inl (IOError ''ELOOP''), w')
      | Some q \<Rightarrow>
          (case map_of (files w) q of
             Some Dir \<Rightarrow> (Inr (children (files w) q), w')
           | Some _ \<Rightarrow> (Inl (IOError ''ENOTDIR''), w')
           | None \<Rightarrow> (Inl (IOError ''ENOENT''), w')))"

text \<open>
  \<open>insideDir p q\<close>: the path \<open>q\<close> is \<open>p\<close> itself or lies below it, that is, \<open>q\<close>
  begins with \<open>p\<close> and a separator.
  \<^verbatim>\<open>rm(p, { recursive: true, force: true })\<close> removes \<open>p\<close> and everything below it; a
  path that does not exist is no error.
\<close>

definition insideDir :: "string \<Rightarrow> string \<Rightarrow> bool" where
  "insideDir p q \<longleftrightarrow> q = p \<or> prefix (if p = ''/'' then p else p @ ''/'') q"

definition fs_rm :: "string \<Rightarrow> unit io" where
  "fs_rm p w = (Inr (), (sys (Rm p) w)\<lparr>files := filter (\<lambda>(q, _). \<not> insideDir p q) (files w)\<rparr>)"

section \<open>WorkspaceFS (src/core/workspaceFs.ts)\<close>

record env =
  cwd :: "string list"
  workspaceRoot :: string

datatype mode = MRead | MWrite | MList | MDelete

text \<open>\<^verbatim>\<open>exists(p)\<close>: \<^verbatim>\<open>lstat\<close> in a \<^verbatim>\<open>try\<close>; any failure is the answer false.\<close>

definition exists_path :: "string \<Rightarrow> bool io" where
  "exists_path p w = (case fs_lstat p w of (Inl _, w') \<Rightarrow> (Inr False, w') | (Inr _, w') \<Rightarrow> (Inr True, w'))"

definition assertNotLinkOrReparse :: "string \<Rightarrow> unit io" where
  "assertNotLinkOrReparse p =
     bind (fs_lstat p) (\<lambda>st. case st of Symlink _ \<Rightarrow> throw (SymlinkNotAllowed p) | _ \<Rightarrow> return ())"

text \<open>The loop over \<open>partsToCheck\<close>: \<open>cur\<close> goes down one part at a time and the loop stops at
  the first path that does not exist.\<close>

fun checkParts :: "string \<Rightarrow> string list \<Rightarrow> unit io" where
  "checkParts cur [] w = (Inr (), w)"
| "checkParts cur (part # parts) w =
     (let cur' = posix_join [cur, part] in
      case exists_path cur' w of
        (Inl e, w1) \<Rightarrow> (Inl e, w1)
      | (Inr False, w1) \<Rightarrow> (Inr (), w1)
      | (Inr True, w1) \<Rightarrow>
          (case assertNotLinkOrReparse cur' w1 of
             (Inl e, w2) \<Rightarrow> (Inl e, w2)
           | (Inr _, w2) \<Rightarrow> checkParts cur' parts w2))"

definition isDrivePath :: "string \<Rightarrow> bool" where
  "isDrivePath s = (case s of c # d # _ \<Rightarrow> isWindowsDeviceRoot c \<and> d = CHR '':'' | _ \<Rightarrow> False)"

definition isUncPath :: "string \<Rightarrow> bool" where
  "isUncPath s \<longleftrightarrow> startsWith s [backslash, backslash] \<or> startsWith s ''//''"

definition ensureInsideWorkspace :: "env \<Rightarrow> string \<Rightarrow> mode \<Rightarrow> string io" where
  "ensureInsideWorkspace env userPath mode =
     (if userPath = [] \<or> trim userPath = [] then throw EmptyPath
      else if win32_isAbsolute userPath then throw AbsolutePath
      else if isDrivePath userPath then throw DrivePath
      else if isUncPath userPath then throw UncPath
      else
        let root = posix_resolve (cwd env) [workspaceRoot env];
            resolved = posix_resolve (cwd env) [root, userPath];
            rel = posix_relative (cwd env) root resolved
        in
        if startsWith rel ''..'' \<or> posix_isAbsolute rel then throw PathEscapesWorkspace
        else
          let targetToCheck = (if mode = MWrite then posix_dirname resolved else resolved) in
          bind (exists_path root) (\<lambda>there.
          bind (if \<not> there then fs_mkdir_recursive root else return ()) (\<lambda>_.
          bind (assertNotLinkOrReparse root) (\<lambda>_.
            let relToCheck = posix_relative (cwd env) root targetToCheck;
                partsToCheck = filter (\<lambda>s. s \<noteq> []) (js_split CHR ''/'' relToCheck)
            in bind (checkParts root partsToCheck) (\<lambda>_. return resolved)))))"

text \<open>
  \<^verbatim>\<open>readText\<close> reads the bytes, compares their number with \<^verbatim>\<open>maxBytes\<close> and decodes
  them; \<^verbatim>\<open>writeText\<close> writes the UTF-8 encoding of the content.
\<close>

definition readText :: "env \<Rightarrow> string \<Rightarrow> int \<Rightarrow> jsstring io" where
  "readText env userPath maxBytes =
     bind (ensureInsideWorkspace env userPath MRead) (\<lambda>p.
     bind (fs_readFile p) (\<lambda>buf.
       if int (length buf) > maxBytes then throw (FileTooLarge (length buf))
       else return (utf8_decode buf)))"

definition writeText :: "env \<Rightarrow> string \<Rightarrow> jsstring \<Rightarrow> unit io" where
  "writeText env userPath content =
     bind (ensureInsideWorkspace env userPath MWrite) (\<lambda>p.
     bind (fs_mkdir_recursive (posix_dirname p)) (\<lambda>_.
       fs_writeFile p (utf8_encode content)))"

definition listDir :: "env \<Rightarrow> string \<Rightarrow> string list io" where
  "listDir env userPath =
     bind (ensureInsideWorkspace env userPath MList) (\<lambda>p.
     bind (fs_readdir p) (\<lambda>entries.
       return (map (\<lambda>(name, n). if n = Dir then name @ ''/'' else name) entries)))"

definition remove :: "env \<Rightarrow> string \<Rightarrow> unit io" where
  "remove env userPath = bind (ensureInsideWorkspace env userPath MDelete) fs_rm"

section \<open>The file tools (src/tools/fileTools.ts)\<close>

text \<open>
  The text of an \<^verbatim>\<open>Error\<close>; a number is written in decimal. The text of an error of the
  file system is given by its code alone (in Node.js a description, the system call and
  the path follow the code).
\<close>

fun decimal :: "nat \<Rightarrow> string" where
  "decimal n =
     (if n < 10 then [char_of (48 + n)] else decimal (n div 10) @ [char_of (48 + n mod 10)])"

fun message :: "error \<Rightarrow> string" where
  "message EmptyPath = ''Empty path''"
| "message AbsolutePath = ''Absolute path not allowed''"
| "message DrivePath = ''Drive path not allowed''"
| "message UncPath = ''UNC path not allowed''"
| "message PathEscapesWorkspace = ''Path escapes workspace''"
| "message (SymlinkNotAllowed p) = ''Symlink/junction is not allowed: '' @ p"
| "message (FileTooLarge n) = ''File too large: '' @ decimal n @ '' bytes''"
| "message (IOError code) = code"

datatype data = Text jsstring | Entries "string list"

datatype FileToolResult = Ok data | Err string

definition caught :: "('a \<Rightarrow> data) \<Rightarrow> (error + 'a) \<times> world \<Rightarrow> FileToolResult \<times> world" where
  "caught f r = (case r of (Inl e, w) \<Rightarrow> (Err (message e), w) | (Inr x, w) \<Rightarrow> (Ok (f x), w))"

definition fileTools_list :: "env \<Rightarrow> string \<Rightarrow> world \<Rightarrow> FileToolResult \<times> world" where
  "fileTools_list env userPath w =
     caught Entries (listDir env (if userPath = [] then ''.'' else userPath) w)"

definition fileTools_read :: "env \<Rightarrow> string \<Rightarrow> int \<Rightarrow> world \<Rightarrow> FileToolResult \<times> world" where
  "fileTools_read env userPath maxBytes w = caught Text (readText env userPath maxBytes w)"

definition fileTools_write :: "env \<Rightarrow> string \<Rightarrow> jsstring \<Rightarrow> world \<Rightarrow> FileToolResult \<times> world" where
  "fileTools_write env userPath content w =
     caught (\<lambda>_. Text (units ''written'')) (writeText env userPath content w)"

definition fileTools_delete :: "env \<Rightarrow> string \<Rightarrow> world \<Rightarrow> FileToolResult \<times> world" where
  "fileTools_delete env userPath w = caught (\<lambda>_. Text (units ''deleted'')) (remove env userPath w)"

section \<open>Facts about paths\<close>

text \<open>
  A segment of a normalized path: not empty, without separator, and neither \<open>.\<close> nor
  \<open>..\<close>. Every path \<^verbatim>\<open>path.resolve\<close> returns is \<open>render\<close> of such segments.
\<close>

lemma js_split_nonempty: "js_split sep s \<noteq> []"
  by (induction s) (auto split: list.splits)

lemma js_split_append: "js_split sep (a @ sep # b) = js_split sep a @ js_split sep b"
  by (induction a) (auto split: list.splits simp: js_split_nonempty)

lemma js_split_nosep: "sep \<notin> set s \<Longrightarrow> js_split sep s = [s]"
  by (induction s) auto


definition okSeg :: "string \<Rightarrow> bool" where
  "okSeg s \<longleftrightarrow> s \<noteq> [] \<and> s \<noteq> ''.'' \<and> s \<noteq> ''..'' \<and> CHR ''/'' \<notin> set s"

lemma js_split_joinSegs:
  "segs \<noteq> [] \<Longrightarrow> \<forall>s \<in> set segs. CHR ''/'' \<notin> set s \<Longrightarrow> js_split CHR ''/'' (joinSegs segs) = segs"
  by (induction segs rule: joinSegs.induct) (auto simp: js_split_append js_split_nosep)

lemma normalizeSegs_append:
  "normalizeSegs up res (xs @ ys) = normalizeSegs up (rev (normalizeSegs up res xs)) ys"
  by (induction up res xs rule: normalizeSegs.induct) (auto split: list.splits)

lemma normalizeSegs_ok:
  "list_all okSeg xs \<Longrightarrow> normalizeSegs up res xs = rev res @ xs"
  by (induction xs arbitrary: res) (auto simp: okSeg_def)



lemma okSegs_sepfree: "list_all okSeg R \<Longrightarrow> \<forall>s \<in> set R. CHR ''/'' \<notin> set s"
  by (auto simp: list_all_iff okSeg_def)

lemma normalizeSegs_split_join:
  assumes "list_all okSeg R"
  shows "normalizeSegs up res (js_split CHR ''/'' (joinSegs R)) = rev res @ R"
proof (cases "R = []")
  case True
  then show ?thesis by simp
next
  case False
  then have "js_split CHR ''/'' (joinSegs R) = R"
    using assms by (simp add: js_split_joinSegs okSegs_sepfree)
  then show ?thesis using assms by (simp add: normalizeSegs_ok)
qed













lemma joinSegs_not_absolute: "list_all okSeg xs \<Longrightarrow> \<not> posix_isAbsolute (joinSegs xs)"
proof (cases xs)
  case Nil
  then show ?thesis by simp
next
  case (Cons x xs')
  assume "list_all okSeg xs"
  then obtain a as where "x = a # as" "a \<noteq> CHR ''/''"
    using Cons by (cases x) (auto simp: okSeg_def)
  then show ?thesis using Cons by (cases xs') auto
qed

lemma joinSegs_Nil_iff: "list_all okSeg xs \<Longrightarrow> joinSegs xs = [] \<longleftrightarrow> xs = []"
  by (induction xs rule: joinSegs.induct) (auto simp: okSeg_def)



lemma posix_join_render:
  assumes "list_all okSeg R" and "okSeg s"
  shows "posix_join [render R, s] = render (R @ [s])"
proof -
  have r: "render R \<noteq> []" "s \<noteq> []" "last s \<noteq> CHR ''/''"
    using assms(2) by (auto simp: render_def okSeg_def dest: last_in_set)
  have split: "js_split CHR ''/'' (render R @ CHR ''/'' # s) = [] # js_split CHR ''/'' (joinSegs R) @ [s]"
    using assms(2) by (simp add: render_def js_split_append js_split_nosep okSeg_def)
  have ns: "normalizeString (render R @ CHR ''/'' # s) False = joinSegs (R @ [s])"
    unfolding normalizeString_def split
    using assms
    by (simp add: normalizeSegs_append [of _ _ "js_split CHR ''/'' (joinSegs R)"]
        normalizeSegs_split_join okSeg_def)
  have abs: "posix_isAbsolute (render R @ CHR ''/'' # s)"
    by (simp add: render_def)
  have "joinSegs (R @ [s]) \<noteq> []"
    using assms by (simp add: joinSegs_Nil_iff)
  then show ?thesis
    using r by (simp add: posix_join_def posix_normalize_def ns abs Let_def) (simp add: render_def)
qed

lemma normalizeSegs_lead: "normalizeSegs up res ([] # xs) = normalizeSegs up res xs"
  by simp

lemma posix_join_dotdot:
  assumes "list_all okSeg R"
  shows "posix_join [render R, ''..''] = render (butlast R)"
proof -
  have split: "js_split CHR ''/'' (render R @ CHR ''/'' # ''..'') = [] # js_split CHR ''/'' (joinSegs R) @ [''..'']"
    by (simp add: render_def js_split_append)
  have "normalizeSegs False (rev R) [''..''] = butlast R"
    using assms by (cases R rule: rev_cases) (auto simp: okSeg_def)
  then have ns: "normalizeString (render R @ CHR ''/'' # ''..'') False = joinSegs (butlast R)"
    unfolding normalizeString_def split
    using assms
    by (simp add: normalizeSegs_append [of _ _ "js_split CHR ''/'' (joinSegs R)"]
        normalizeSegs_split_join normalizeSegs_lead del: normalizeSegs.simps)
  have abs: "posix_isAbsolute (render R @ CHR ''/'' # ''..'')"
    by (simp add: render_def)
  show ?thesis
    by (simp add: posix_join_def posix_normalize_def ns abs Let_def) (simp add: render_def)
qed



section \<open>The checks of ensureInsideWorkspace\<close>












section \<open>An example workspace\<close>

text \<open>
  The process runs in \<open>/srv\<close> with the workspace root \<open>ws\<close>. The workspace holds a
  directory with a file, a link to a file outside and a link to a directory outside.
\<close>

definition exampleEnv :: env where
  "exampleEnv = \<lparr>cwd = [''srv''], workspaceRoot = ''ws''\<rparr>"

definition exampleWorld :: world where
  "exampleWorld =
     \<lparr>files =
        [(''/'', Dir), (''/srv'', Dir), (''/srv/ws'', Dir),
         (''/srv/ws/link.txt'', Symlink ''/srv/outside.txt''),
         (''/srv/ws/d'', Dir), (''/srv/ws/d/f.txt'', File (utf8_encode (units ''hi''))),
         (''/srv/ws/ld'', Symlink ''/srv'')],
      syscalls = []\<rparr>"

section \<open>The claims about path resolution\<close>















section \<open>Values of JSON\<close>

text \<open>
  A field of a request body, or the body itself, is whatever \<^verbatim>\<open>JSON.parse\<close> made: the
  routes cast it (\<^verbatim>\<open>body.path as string\<close>) without looking at its type. A value is
  \<^verbatim>\<open>undefined\<close> (the field is not there), \<^verbatim>\<open>null\<close>, a boolean, a number, a string, or
  an array or an object, of which nothing is looked at. Of a number the program looks only
  at whether it is zero; it is given here by an integer. The strings of a path are lists
  of characters, those of a content lists of code units, so the type of the characters is
  a parameter.
\<close>

datatype 'c jsval =
  JUndefined | JNull | JBool bool | JNumber int | JString "'c list" | JArray | JObject

text \<open>What \<^verbatim>\<open>!v\<close> and \<^verbatim>\<open>v || d\<close> look at.\<close>

fun truthy :: "'c jsval \<Rightarrow> bool" where
  "truthy JUndefined = False"
| "truthy JNull = False"
| "truthy (JBool b) = b"
| "truthy (JNumber n) = (n \<noteq> 0)"
| "truthy (JString s) = (s \<noteq> [])"
| "truthy JArray = True"
| "truthy JObject = True"

text \<open>
  A file tool called with a value as its path. With a string it is the tool. A value that
  is not a string and is falsy goes the way of the empty string: \<^verbatim>\<open>userPath || "."\<close> in
  \<^verbatim>\<open>list\<close> and \<^verbatim>\<open>!userPath\<close> in \<^verbatim>\<open>ensureInsideWorkspace\<close> look at nothing else. One
  that is truthy passes \<^verbatim>\<open>!userPath\<close>, and \<^verbatim>\<open>userPath.trim()\<close> throws a
  \<^verbatim>\<open>TypeError\<close> before any access to the file system, which the tool returns as its
  error.
\<close>

definition withPath ::
  "char jsval \<Rightarrow> (string \<Rightarrow> world \<Rightarrow> FileToolResult \<times> world) \<Rightarrow> world \<Rightarrow> FileToolResult \<times> world" where
  "withPath v fileTool w =
     (case v of
        JString p \<Rightarrow> fileTool p w
      | _ \<Rightarrow> if truthy v then (Err ''userPath.trim is not a function'', w) else fileTool [] w)"

section \<open>AuditLogger (src/tools/audit.ts)\<close>

text \<open>
  The payload of a tool call as the server stores and logs it: \<^verbatim>\<open>{ path, content }\<close> for a
  write, \<^verbatim>\<open>{ path }\<close> otherwise. The path is the value the request had there.
\<close>

record tool_args =
  arg_path :: "char jsval"
  arg_content :: "jsstring option"

datatype audit_result = ResultOk | ResultError | ResultPending

record AuditEntry =
  audit_at :: string
  audit_tool :: string
  audit_args :: tool_args
  result :: audit_result
  detail :: "string option"

section \<open>The HTTP server (src/server/http.ts), tool and approval routes\<close>

text \<open>
  The state the routes work on: the workspace on disk, the approval manager, the lines of
  \<^verbatim>\<open>audit.jsonl\<close>, and whether \<^verbatim>\<open>appendFile\<close> on that file fails, with which message
  (a matter of the environment: a full disk, a missing data directory).
\<close>

record 'l server =
  disk :: world
  approvalManager :: "(tool_args, 'l) ApprovalManager"
  auditTrail :: "AuditEntry list"
  auditError :: "string option"

text \<open>
  \<^verbatim>\<open>log(entry)\<close> adds the time and appends one line; it has no \<^verbatim>\<open>try\<close>, so a failure
  of \<^verbatim>\<open>appendFile\<close> is thrown to the caller.
\<close>

definition AuditLogger_log ::
  "string \<Rightarrow> string \<Rightarrow> tool_args \<Rightarrow> audit_result \<Rightarrow> string option \<Rightarrow> 'l server
   \<Rightarrow> (string + unit) \<times> 'l server" where
  "AuditLogger_log time t a r d srv =
     (case auditError srv of
        Some msg \<Rightarrow> (Inl msg, srv)
      | None \<Rightarrow>
          (Inr (), srv\<lparr>auditTrail := auditTrail srv @
             [\<lparr>audit_at = time, audit_tool = t, audit_args = a, result = r, detail = d\<rparr>]\<rparr>))"

text \<open>
  What \<^verbatim>\<open>parseBody\<close> gives. It rejects, with the message \<^verbatim>\<open>Invalid JSON\<close> when the
  text of the request does not parse, and with the error of the stream when the request
  cannot be read. Otherwise the body is the parsed value (\<^verbatim>\<open>{}\<close> for an empty request):
  \<^verbatim>\<open>null\<close>, of which no field can be read, or a value with the fields the routes read;
  in a body that is a number, a string, a boolean or an array all of them are
  \<^verbatim>\<open>undefined\<close>. \<^verbatim>\<open>maxBytes\<close> is taken at the type the read route casts it to, a
  number or absent.
\<close>

record body =
  body_path :: "char jsval"
  body_content :: "nat jsval"
  body_maxBytes :: "int option"

datatype parsed = Rejected string | NullBody | Fields body

datatype route =
  FileList | FileRead | FileWrite | FileDelete | ApprovalsGet | ApprovalsPost string

text \<open>
  A request to one of the tool or approval routes, with what \<^verbatim>\<open>parseBody\<close> gives for
  it. \<open>req_uuid\<close> and \<open>req_time\<close> are what
  \<^verbatim>\<open>randomUUID()\<close> and the clock give while the request is handled. For \<open>ApprovalsPost\<close>
  the string is the rest of the path after \<^verbatim>\<open>/api/approvals/\<close>.
\<close>

record request =
  req_route :: route
  req_body :: parsed
  req_uuid :: string
  req_time :: string

datatype payload =
  PError string
  | PTool FileToolResult
  | PPending string
  | PApprovals "tool_args PendingTool list"
  | PRejected bool
  | PNotFound

record response =
  status :: nat
  payload :: payload

definition sendJson :: "nat \<Rightarrow> payload \<Rightarrow> response" where
  "sendJson code p = \<lparr>status = code, payload = p\<rparr>"

text \<open>
  The end of the list, read and approve branches: the awaited \<^verbatim>\<open>auditLogger.log\<close> and then
  the answer. An exception goes to the \<^verbatim>\<open>catch\<close> of the handler, which answers 500 with
  the message.
\<close>

definition logged ::
  "string \<Rightarrow> string \<Rightarrow> tool_args \<Rightarrow> audit_result \<Rightarrow> string option \<Rightarrow> response
   \<Rightarrow> 'l server \<Rightarrow> response \<times> 'l server" where
  "logged time t a r d answer srv =
     (case AuditLogger_log time t a r d srv of
        (Inl msg, srv') \<Rightarrow> (sendJson 500 (PError msg), srv')
      | (Inr _, srv') \<Rightarrow> (answer, srv'))"

definition outcome :: "FileToolResult \<Rightarrow> audit_result \<times> string option" where
  "outcome out = (case out of Ok _ \<Rightarrow> (ResultOk, None) | Err e \<Rightarrow> (ResultError, Some e))"

definition MAX_WRITE_BYTES :: nat where
  "MAX_WRITE_BYTES = 10 * 1024 * 1024"

text \<open>
  The body of a tool route: \<^verbatim>\<open>parseBody\<close>, then the first read of a field. A rejection
  of \<^verbatim>\<open>parseBody\<close>, and \<^verbatim>\<open>body.path\<close> on \<^verbatim>\<open>null\<close>, throw; the \<^verbatim>\<open>catch\<close> of the
  handler answers 500 with the message.
\<close>

definition withBody ::
  "request \<Rightarrow> 'l server \<Rightarrow> (body \<Rightarrow> response \<times> 'l server) \<Rightarrow> response \<times> 'l server" where
  "withBody req srv handler =
     (case req_body req of
        Rejected e \<Rightarrow> (sendJson 500 (PError e), srv)
      | NullBody \<Rightarrow>
          (sendJson 500 (PError ''Cannot read properties of null (reading 'path')''), srv)
      | Fields b \<Rightarrow> handler b)"

text \<open>
  \<^verbatim>\<open>fileTools.write(args.path, args.content)\<close> on approval. Without a content,
  \<^verbatim>\<open>writeText\<close> resolves the path and makes the directories, and \<^verbatim>\<open>writeFile\<close> then
  throws a \<^verbatim>\<open>TypeError\<close>, which the tool returns as its error.
\<close>

definition approved_write :: "env \<Rightarrow> tool_args \<Rightarrow> world \<Rightarrow> FileToolResult \<times> world" where
  "approved_write env a =
     withPath (arg_path a) (\<lambda>p w.
       case arg_content a of
         Some c \<Rightarrow> fileTools_write env p c w
       | None \<Rightarrow>
           caught (\<lambda>_. Text (units ''written''))
             (bind (ensureInsideWorkspace env p MWrite) (\<lambda>q.
              bind (fs_mkdir_recursive (posix_dirname q)) (\<lambda>_.
                (throw (IOError ''ERR_INVALID_ARG_TYPE'') :: unit io))) w))"

text \<open>
  The handler. In the approval routes a listener that throws makes \<^verbatim>\<open>approve\<close> or
  \<^verbatim>\<open>reject\<close> throw, which the \<^verbatim>\<open>catch\<close> answers with 500; the manager is as the call
  left it.
\<close>

definition createHttpServer :: "env \<Rightarrow> request \<Rightarrow> 'l server \<Rightarrow> response \<times> 'l server" where
  "createHttpServer env req srv =
     (case req_route req of
        ApprovalsGet \<Rightarrow> (sendJson 200 (PApprovals (list (approvalManager srv))), srv)
      | ApprovalsPost rest \<Rightarrow>
          (let parts = js_split CHR ''/'' rest; i = hd parts in
           if i = [] then (sendJson 400 (PError ''Missing id''), srv)
           else if length parts > 1 \<and> parts ! 1 = ''approve'' then
             (case approve i (approvalManager srv) of
                (Inl e, m) \<Rightarrow> (sendJson 500 (PError e), srv\<lparr>approvalManager := m\<rparr>)
              | (Inr None, _) \<Rightarrow> (sendJson 404 (PError ''Not found''), srv)
              | (Inr (Some p), m) \<Rightarrow>
                  (let srv1 = srv\<lparr>approvalManager := m\<rparr> in
                   if tool p = ''file.write'' then
                     (case approved_write env (args p) (disk srv1) of
                        (out, w) \<Rightarrow>
                          logged (req_time req) (tool p) (args p) (fst (outcome out)) (snd (outcome out))
                            (sendJson 200 (PTool out)) (srv1\<lparr>disk := w\<rparr>))
                   else if tool p = ''file.delete'' then
                     (case withPath (arg_path (args p)) (fileTools_delete env) (disk srv1) of
                        (out, w) \<Rightarrow>
                          logged (req_time req) (tool p) (args p) (fst (outcome out)) (snd (outcome out))
                            (sendJson 200 (PTool out)) (srv1\<lparr>disk := w\<rparr>))
                   else (sendJson 400 (PError ''Unknown tool''), srv1)))
           else if length parts > 1 \<and> parts ! 1 = ''reject'' then
             (case reject i (approvalManager srv) of
                (Inl e, m) \<Rightarrow> (sendJson 500 (PError e), srv\<lparr>approvalManager := m\<rparr>)
              | (Inr ok, m) \<Rightarrow> (sendJson 200 (PRejected ok), srv\<lparr>approvalManager := m\<rparr>))
           else (sendJson 404 PNotFound, srv))
      | FileList \<Rightarrow>
          withBody req srv (\<lambda>b.
            let p = (case body_path b of JUndefined \<Rightarrow> JString ''.'' | JNull \<Rightarrow> JString ''.'' | v \<Rightarrow> v) in
            case withPath p (fileTools_list env) (disk srv) of
              (out, w) \<Rightarrow>
                logged (req_time req) ''file.list'' \<lparr>arg_path = p, arg_content = None\<rparr>
                  (fst (outcome out)) (snd (outcome out))
                  (sendJson 200 (PTool out)) (srv\<lparr>disk := w\<rparr>))
      | FileRead \<Rightarrow>
          withBody req srv (\<lambda>b.
            let p = body_path b;
                maxBytes = (case body_maxBytes b of None \<Rightarrow> 1000000 | Some n \<Rightarrow> n) in
            if \<not> truthy p then (sendJson 400 (PError ''Missing path''), srv)
            else
              (case withPath p (\<lambda>q. fileTools_read env q maxBytes) (disk srv) of
                 (out, w) \<Rightarrow>
                   logged (req_time req) ''file.read'' \<lparr>arg_path = p, arg_content = None\<rparr>
                     (fst (outcome out)) (snd (outcome out))
                     (sendJson 200 (PTool out)) (srv\<lparr>disk := w\<rparr>)))
      | FileWrite \<Rightarrow>
          withBody req srv (\<lambda>b.
            let p = body_path b; content = body_content b in
            if \<not> truthy p then (sendJson 400 (PError ''Missing path''), srv)
            else
              (case content of
                 JString c \<Rightarrow>
                   if byteLength c > MAX_WRITE_BYTES
                   then (sendJson 413 (PError ''Content too large''), srv)
                   else
                     (case add (req_uuid req) (req_time req) ''file.write''
                             \<lparr>arg_path = p, arg_content = Some c\<rparr> (approvalManager srv) of
                        (i, m) \<Rightarrow>
                          logged (req_time req) ''file.write''
                            \<lparr>arg_path = p, arg_content = None\<rparr> ResultPending (Some i)
                            (sendJson 200 (PPending i)) (srv\<lparr>approvalManager := m\<rparr>))
               | _ \<Rightarrow> (sendJson 400 (PError ''Missing or invalid content''), srv)))
      | FileDelete \<Rightarrow>
          withBody req srv (\<lambda>b.
            let p = body_path b in
            if \<not> truthy p then (sendJson 400 (PError ''Missing path''), srv)
            else
              (case add (req_uuid req) (req_time req) ''file.delete''
                      \<lparr>arg_path = p, arg_content = None\<rparr> (approvalManager srv) of
                 (i, m) \<Rightarrow>
                   logged (req_time req) ''file.delete''
                     \<lparr>arg_path = p, arg_content = None\<rparr> ResultPending (Some i)
                     (sendJson 200 (PPending i)) (srv\<lparr>approvalManager := m\<rparr>))))"

section \<open>The executor of scheduled tasks (src/index.ts)\<close>

text \<open>
  The arguments of a scheduled \<^verbatim>\<open>runTool\<close> action, a \<^verbatim>\<open>Record<string, unknown>\<close> read at
  the types \<^verbatim>\<open>runTool\<close> casts to. An unknown tool name throws.
\<close>

record run_args =
  run_path :: "string option"
  run_content :: "jsstring option"
  run_maxBytes :: "int option"

definition runTool :: "env \<Rightarrow> string \<Rightarrow> run_args \<Rightarrow> world \<Rightarrow> (string + FileToolResult) \<times> world" where
  "runTool env toolName a w =
     (if toolName = ''file.list'' then
        (case fileTools_list env (case run_path a of None \<Rightarrow> ''.'' | Some p \<Rightarrow> p) w of
           (out, w') \<Rightarrow> (Inr out, w'))
      else if toolName = ''file.read'' then
        (case fileTools_read env (case run_path a of None \<Rightarrow> [] | Some p \<Rightarrow> p)
                (case run_maxBytes a of None \<Rightarrow> 1000000 | Some n \<Rightarrow> n) w of
           (out, w') \<Rightarrow> (Inr out, w'))
      else if toolName = ''file.write'' then
        (case fileTools_write env (case run_path a of None \<Rightarrow> [] | Some p \<Rightarrow> p)
                (case run_content a of None \<Rightarrow> [] | Some c \<Rightarrow> c) w of
           (out, w') \<Rightarrow> (Inr out, w'))
      else if toolName = ''file.delete'' then
        (case fileTools_delete env (case run_path a of None \<Rightarrow> [] | Some p \<Rightarrow> p) w of
           (out, w') \<Rightarrow> (Inr out, w'))
      else (Inl (''Unknown tool: '' @ toolName), w))"

section \<open>The claims about the server\<close>

text \<open>A server on the example workspace with nothing pending, a text of one byte more
  than the limit of the write route, and a write request with the given path and content.\<close>

definition exampleServer :: "string server" where
  "exampleServer =
     \<lparr>disk = exampleWorld, approvalManager = new_ApprovalManager, auditTrail = [], auditError = None\<rparr>"

definition oversized :: jsstring where
  "oversized = replicate (Suc MAX_WRITE_BYTES) 0x78"

definition writeRequest :: "char jsval \<Rightarrow> nat jsval \<Rightarrow> request" where
  "writeRequest p c =
     \<lparr>req_route = FileWrite,
      req_body = Fields \<lparr>body_path = p, body_content = c, body_maxBytes = None\<rparr>,
      req_uuid = ''id-1'', req_time = ''t1''\<rparr>"

lemma byteLength_oversized: "byteLength oversized = Suc MAX_WRITE_BYTES"
  unfolding oversized_def by (rule byteLength_replicate) simp

lemma logged_cases:
  "logged time t a r d answer srv =
     (case auditError srv of
        Some msg \<Rightarrow> (sendJson 500 (PError msg), srv)
      | None \<Rightarrow> (answer, srv\<lparr>auditTrail := auditTrail srv @
             [\<lparr>audit_at = time, audit_tool = t, audit_args = a, result = r, detail = d\<rparr>]\<rparr>))"
  by (simp add: logged_def AuditLogger_log_def split: option.splits)

lemma write_route:
  assumes "req_route req = FileWrite" and "req_body req = Fields b"
  shows "createHttpServer env req srv =
     (if \<not> truthy (body_path b) then (sendJson 400 (PError ''Missing path''), srv)
      else case body_content b of
         JString c \<Rightarrow>
           if byteLength c > MAX_WRITE_BYTES
           then (sendJson 413 (PError ''Content too large''), srv)
           else
             logged (req_time req) ''file.write''
               \<lparr>arg_path = body_path b, arg_content = None\<rparr> ResultPending (Some (req_uuid req))
               (sendJson 200 (PPending (req_uuid req)))
               (srv\<lparr>approvalManager := snd (add (req_uuid req) (req_time req) ''file.write''
                    \<lparr>arg_path = body_path b, arg_content = Some c\<rparr> (approvalManager srv))\<rparr>)
       | _ \<Rightarrow> (sendJson 400 (PError ''Missing or invalid content''), srv))"
  using assms by (simp add: createHttpServer_def withBody_def Let_def add_def split: jsval.split)

text \<open>
  C10. The size limit of the write route. The route reads the body, tests the path, tests
  that the content is a string, and only then its size. A write request whose body has a
  truthy path and a string as content is answered 413 when the UTF-8 size of the content
  is above \<open>10 * 1024 * 1024\<close>, and the server is then exactly as before: nothing is
  pending, nothing is logged. At or below that size the request adds the pending entry
  with the new id and leaves the workspace alone; when the audit line can be appended the
  answer is 200 with that id and the line is the pending one, and when it cannot the
  answer is 500 with the message of the append. A request that fails an earlier test is
  answered by that test, whatever the size of its content, and the server is as before:
  500 for a body that cannot be read or does not parse and for the body \<^verbatim>\<open>null\<close>, 400 for
  a path that is missing or falsy, 400 for a content that is not a string.
\<close>

theorem C10_write_size_limit:
  assumes "req_route req = FileWrite"
  shows "MAX_WRITE_BYTES = 10485760
    \<and> (req_body req = Rejected e \<longrightarrow>
          createHttpServer env req srv = (sendJson 500 (PError e), srv))
    \<and> (req_body req = NullBody \<longrightarrow>
          createHttpServer env req srv
            = (sendJson 500 (PError ''Cannot read properties of null (reading 'path')''), srv))
    \<and> (req_body req = Fields b \<and> \<not> truthy (body_path b) \<longrightarrow>
          createHttpServer env req srv = (sendJson 400 (PError ''Missing path''), srv))
    \<and> (req_body req = Fields b \<and> truthy (body_path b) \<and> (\<forall>s. body_content b \<noteq> JString s) \<longrightarrow>
          createHttpServer env req srv = (sendJson 400 (PError ''Missing or invalid content''), srv))
    \<and> (req_body req = Fields b \<and> truthy (body_path b) \<and> body_content b = JString c
        \<and> byteLength c > MAX_WRITE_BYTES \<longrightarrow>
          createHttpServer env req srv = (sendJson 413 (PError ''Content too large''), srv))
    \<and> (req_body req = Fields b \<and> truthy (body_path b) \<and> body_content b = JString c
        \<and> byteLength c \<le> MAX_WRITE_BYTES \<longrightarrow>
          approvalManager (snd (createHttpServer env req srv))
            = snd (add (req_uuid req) (req_time req) ''file.write''
                \<lparr>arg_path = body_path b, arg_content = Some c\<rparr> (approvalManager srv))
        \<and> get (req_uuid req) (approvalManager (snd (createHttpServer env req srv)))
            = Some \<lparr>ident = req_uuid req, tool = ''file.write'',
                args = \<lparr>arg_path = body_path b, arg_content = Some c\<rparr>, at = req_time req\<rparr>
        \<and> disk (snd (createHttpServer env req srv)) = disk srv
        \<and> (auditError srv = None \<longrightarrow>
              fst (createHttpServer env req srv) = sendJson 200 (PPending (req_uuid req))
            \<and> auditTrail (snd (createHttpServer env req srv)) = auditTrail srv @
                [\<lparr>audit_at = req_time req, audit_tool = ''file.write'',
                  audit_args = \<lparr>arg_path = body_path b, arg_content = None\<rparr>,
                  result = ResultPending, detail = Some (req_uuid req)\<rparr>])
        \<and> (auditError srv = Some msg \<longrightarrow>
              fst (createHttpServer env req srv) = sendJson 500 (PError msg)
            \<and> auditTrail (snd (createHttpServer env req srv)) = auditTrail srv))"
proof -
  have c1: "MAX_WRITE_BYTES = 10485760"
    by (simp add: MAX_WRITE_BYTES_def)
  have c2: "req_body req = Rejected e \<longrightarrow>
          createHttpServer env req srv = (sendJson 500 (PError e), srv)"
    using assms by (simp add: createHttpServer_def withBody_def)
  have c3: "req_body req = NullBody \<longrightarrow>
          createHttpServer env req srv
            = (sendJson 500 (PError ''Cannot read properties of null (reading 'path')''), srv)"
    using assms by (simp add: createHttpServer_def withBody_def)
  have c4: "req_body req = Fields b \<and> \<not> truthy (body_path b) \<longrightarrow>
          createHttpServer env req srv = (sendJson 400 (PError ''Missing path''), srv)"
    using write_route [OF assms, of b env srv] by simp
  have c5: "req_body req = Fields b \<and> truthy (body_path b) \<and> (\<forall>s. body_content b \<noteq> JString s) \<longrightarrow>
          createHttpServer env req srv = (sendJson 400 (PError ''Missing or invalid content''), srv)"
    using write_route [OF assms, of b env srv] by (cases "body_content b") simp_all
  have c6: "req_body req = Fields b \<and> truthy (body_path b) \<and> body_content b = JString c
        \<and> byteLength c > MAX_WRITE_BYTES \<longrightarrow>
          createHttpServer env req srv = (sendJson 413 (PError ''Content too large''), srv)"
    using write_route [OF assms, of b env srv] by simp
  have c7: "req_body req = Fields b \<and> truthy (body_path b) \<and> body_content b = JString c
        \<and> byteLength c \<le> MAX_WRITE_BYTES \<longrightarrow>
          approvalManager (snd (createHttpServer env req srv))
            = snd (add (req_uuid req) (req_time req) ''file.write''
                \<lparr>arg_path = body_path b, arg_content = Some c\<rparr> (approvalManager srv))
        \<and> get (req_uuid req) (approvalManager (snd (createHttpServer env req srv)))
            = Some \<lparr>ident = req_uuid req, tool = ''file.write'',
                args = \<lparr>arg_path = body_path b, arg_content = Some c\<rparr>, at = req_time req\<rparr>
        \<and> disk (snd (createHttpServer env req srv)) = disk srv
        \<and> (auditError srv = None \<longrightarrow>
              fst (createHttpServer env req srv) = sendJson 200 (PPending (req_uuid req))
            \<and> auditTrail (snd (createHttpServer env req srv)) = auditTrail srv @
                [\<lparr>audit_at = req_time req, audit_tool = ''file.write'',
                  audit_args = \<lparr>arg_path = body_path b, arg_content = None\<rparr>,
                  result = ResultPending, detail = Some (req_uuid req)\<rparr>])
        \<and> (auditError srv = Some msg \<longrightarrow>
              fst (createHttpServer env req srv) = sendJson 500 (PError msg)
            \<and> auditTrail (snd (createHttpServer env req srv)) = auditTrail srv)"
    using write_route [OF assms, of b env srv]
    by (auto simp: logged_cases add_def get_def map_of_update_same split: option.splits)
  show ?thesis
    using c1 c2 c3 c4 c5 c6 c7 by (intro conjI) assumption+
qed


theorem C10_write_size_limit_witness:
  "req_route (writeRequest (JString ''big.txt'') (JString oversized)) = FileWrite
   \<and> byteLength oversized > MAX_WRITE_BYTES
   \<and> createHttpServer exampleEnv (writeRequest (JString ''big.txt'') (JString oversized)) exampleServer
       = (sendJson 413 (PError ''Content too large''), exampleServer)
   \<and> byteLength (units ''hello'') \<le> MAX_WRITE_BYTES
   \<and> get ''id-1'' (approvalManager (snd (createHttpServer exampleEnv
          (writeRequest (JString ''a.txt'') (JString (units ''hello''))) exampleServer)))
       = Some \<lparr>ident = ''id-1'', tool = ''file.write'',
           args = \<lparr>arg_path = JString ''a.txt'', arg_content = Some (units ''hello'')\<rparr>, at = ''t1''\<rparr>
   \<and> \<not> truthy (JNumber 0 :: char jsval)
   \<and> createHttpServer exampleEnv (writeRequest (JNumber 0) (JString oversized)) exampleServer
       = (sendJson 400 (PError ''Missing path''), exampleServer)
   \<and> createHttpServer exampleEnv
        \<lparr>req_route = FileWrite, req_body = NullBody, req_uuid = ''id-1'', req_time = ''t1''\<rparr> exampleServer
       = (sendJson 500 (PError ''Cannot read properties of null (reading 'path')''), exampleServer)
   \<and> createHttpServer exampleEnv
        \<lparr>req_route = FileWrite, req_body = Rejected ''Invalid JSON'', req_uuid = ''id-1'',
         req_time = ''t1''\<rparr> exampleServer
       = (sendJson 500 (PError ''Invalid JSON''), exampleServer)"
proof -
  let ?big = "writeRequest (JString ''big.txt'') (JString oversized)"
  let ?small = "writeRequest (JString ''a.txt'') (JString (units ''hello''))"
  let ?nopath = "writeRequest (JNumber 0) (JString oversized)"
  let ?null = "\<lparr>req_route = FileWrite, req_body = NullBody, req_uuid = ''id-1'', req_time = ''t1''\<rparr>"
  let ?bad = "\<lparr>req_route = FileWrite, req_body = Rejected ''Invalid JSON'', req_uuid = ''id-1'',
         req_time = ''t1''\<rparr>"
  let ?bb = "\<lparr>body_path = JString ''big.txt'', body_content = JString oversized, body_maxBytes = None\<rparr>"
  let ?sb = "\<lparr>body_path = JString ''a.txt'', body_content = JString (units ''hello''), body_maxBytes = None\<rparr>"
  let ?nb = "\<lparr>body_path = JNumber 0, body_content = JString oversized, body_maxBytes = None\<rparr>"
  have big: "byteLength oversized > MAX_WRITE_BYTES"
    by (simp add: byteLength_oversized)
  have small: "byteLength (units ''hello'') \<le> MAX_WRITE_BYTES"
    by code_simp
  have falsy: "\<not> truthy (JNumber 0 :: char jsval)"
    by simp
  have ra: "req_route ?big = FileWrite" and rb: "req_route ?small = FileWrite"
    and rc: "req_route ?nopath = FileWrite" and rd: "req_route ?null = FileWrite"
    and re: "req_route ?bad = FileWrite"
    by (simp_all add: writeRequest_def)
  have pa: "req_body ?big = Fields ?bb \<and> truthy (body_path ?bb) \<and> body_content ?bb = JString oversized
      \<and> byteLength oversized > MAX_WRITE_BYTES"
    using big by (simp add: writeRequest_def)
  have pb: "req_body ?small = Fields ?sb \<and> truthy (body_path ?sb)
      \<and> body_content ?sb = JString (units ''hello'') \<and> byteLength (units ''hello'') \<le> MAX_WRITE_BYTES"
    using small by (simp add: writeRequest_def)
  have pc: "req_body ?nopath = Fields ?nb \<and> \<not> truthy (body_path ?nb)"
    by (simp add: writeRequest_def)
  have pd: "req_body ?null = NullBody" and pe: "req_body ?bad = Rejected ''Invalid JSON''"
    by simp_all
  have a: "createHttpServer exampleEnv ?big exampleServer
       = (sendJson 413 (PError ''Content too large''), exampleServer)"
    using pa C10_write_size_limit
      [OF ra, where env = exampleEnv and srv = exampleServer and b = ?bb and c = oversized] by blast
  have "get (req_uuid ?small) (approvalManager (snd (createHttpServer exampleEnv ?small exampleServer)))
       = Some \<lparr>ident = req_uuid ?small, tool = ''file.write'',
           args = \<lparr>arg_path = body_path ?sb, arg_content = Some (units ''hello'')\<rparr>, at = req_time ?small\<rparr>"
    using pb C10_write_size_limit
      [OF rb, where env = exampleEnv and srv = exampleServer and b = ?sb and c = "units ''hello''"] by blast
  then have b: "get ''id-1'' (approvalManager (snd (createHttpServer exampleEnv ?small exampleServer)))
       = Some \<lparr>ident = ''id-1'', tool = ''file.write'',
           args = \<lparr>arg_path = JString ''a.txt'', arg_content = Some (units ''hello'')\<rparr>, at = ''t1''\<rparr>"
    by (simp add: writeRequest_def)
  have c: "createHttpServer exampleEnv ?nopath exampleServer
       = (sendJson 400 (PError ''Missing path''), exampleServer)"
    using pc C10_write_size_limit [OF rc, where env = exampleEnv and srv = exampleServer and b = ?nb] by blast
  have d: "createHttpServer exampleEnv ?null exampleServer
       = (sendJson 500 (PError ''Cannot read properties of null (reading 'path')''), exampleServer)"
    using pd C10_write_size_limit [OF rd, where env = exampleEnv and srv = exampleServer] by blast
  have e: "createHttpServer exampleEnv ?bad exampleServer
       = (sendJson 500 (PError ''Invalid JSON''), exampleServer)"
    using pe C10_write_size_limit
      [OF re, where env = exampleEnv and srv = exampleServer and e = "''Invalid JSON''"] by blast
  show ?thesis
    using ra big a small b falsy c d e by (intro conjI) assumption+
qed

text \<open>
  As C10 is written, for every write request, it fails on a request without a path: the
  path is tested before the size, and the answer is 400.
\<close>

theorem C10_missing_path_counterexample:
  "byteLength oversized > MAX_WRITE_BYTES
   \<and> createHttpServer exampleEnv (writeRequest JUndefined (JString oversized)) exampleServer
       = (sendJson 400 (PError ''Missing path''), exampleServer)"
  by (simp add: byteLength_oversized createHttpServer_def withBody_def writeRequest_def)

lemma logged_failing:
  "auditError srv = Some msg \<Longrightarrow> logged time t a r d answer srv = (sendJson 500 (PError msg), srv)"
  by (simp add: logged_cases)

lemma logged_working:
  "auditError srv = None \<Longrightarrow> logged time t a r d answer srv =
     (answer, srv\<lparr>auditTrail := auditTrail srv @
        [\<lparr>audit_at = time, audit_tool = t, audit_args = a, result = r, detail = d\<rparr>]\<rparr>)"
  by (simp add: logged_cases)

text \<open>
  C8. What a failure of the audit log does. Take a server on which \<^verbatim>\<open>appendFile\<close> fails.
  Handling a request leaves the workspace and the pending approvals exactly as they would
  be had the append worked: nothing is blocked, nothing is undone. The audit trail gets no
  line. A request that logs nothing is answered as usual; a request that would have logged
  a line is answered 500 with the message of the failure, instead of its own result.
\<close>

theorem C8_audit_failure:
  assumes "auditError srv = Some msg"
  shows "disk (snd (createHttpServer env req srv))
      = disk (snd (createHttpServer env req (srv\<lparr>auditError := None\<rparr>)))
    \<and> approvalManager (snd (createHttpServer env req srv))
      = approvalManager (snd (createHttpServer env req (srv\<lparr>auditError := None\<rparr>)))
    \<and> auditTrail (snd (createHttpServer env req srv)) = auditTrail srv
    \<and> (auditTrail (snd (createHttpServer env req (srv\<lparr>auditError := None\<rparr>))) = auditTrail srv \<longrightarrow>
         fst (createHttpServer env req srv) = fst (createHttpServer env req (srv\<lparr>auditError := None\<rparr>)))
    \<and> (auditTrail (snd (createHttpServer env req (srv\<lparr>auditError := None\<rparr>))) \<noteq> auditTrail srv \<longrightarrow>
         fst (createHttpServer env req srv) = sendJson 500 (PError msg))"
proof -
  let ?n = "srv\<lparr>auditError := None\<rparr>"
  have f: "auditError (srv\<lparr>disk := w\<rparr>) = Some msg" "auditError (srv\<lparr>approvalManager := m\<rparr>) = Some msg"
    "auditError (srv\<lparr>approvalManager := m, disk := w\<rparr>) = Some msg" for w m
    using assms by simp_all
  have n: "auditError (?n\<lparr>disk := w\<rparr>) = None" "auditError (?n\<lparr>approvalManager := m\<rparr>) = None"
    "auditError (?n\<lparr>approvalManager := m, disk := w\<rparr>) = None" for w m
    by simp_all
  note simps = createHttpServer_def withBody_def logged_failing [OF f(1)] logged_failing [OF f(2)]
    logged_failing [OF f(3)] logged_working [OF n(1)] logged_working [OF n(2)]
    logged_working [OF n(3)] Let_def
  show ?thesis
  proof (cases "req_route req")
    case FileList
    then show ?thesis
      by (simp add: simps split: parsed.split prod.split)
  next
    case FileRead
    then show ?thesis
      by (simp add: simps split: parsed.split prod.split)
  next
    case FileWrite
    then show ?thesis
      by (simp add: simps split: parsed.split prod.split jsval.split)
  next
    case FileDelete
    then show ?thesis
      by (simp add: simps split: parsed.split prod.split)
  next
    case ApprovalsGet
    then show ?thesis by (simp add: simps)
  next
    case (ApprovalsPost rest)
    then show ?thesis
      by (simp add: simps split: option.split prod.split sum.split)
  qed
qed

text \<open>
  A server with one write waiting for approval, on which the audit file cannot be appended
  to, and the request that approves that write.
\<close>

definition pendingServer :: "string server" where
  "pendingServer =
     \<lparr>disk = exampleWorld,
      approvalManager =
        \<lparr>pending =
           [(''id-1'', \<lparr>ident = ''id-1'', tool = ''file.write'',
               args = \<lparr>arg_path = JString ''n/m.txt'', arg_content = Some (units ''abc'')\<rparr>,
               at = ''t1''\<rparr>)],
         listeners = [], calls = []\<rparr>,
      auditTrail = [],
      auditError = Some ''ENOSPC''\<rparr>"

definition approveRequest :: request where
  "approveRequest =
     \<lparr>req_route = ApprovalsPost ''id-1/approve'', req_body = Fields \<lparr>body_path = JUndefined,
        body_content = JUndefined, body_maxBytes = None\<rparr>, req_uuid = ''id-2'', req_time = ''t2''\<rparr>"

theorem C8_audit_failure_witness:
  "auditError pendingServer = Some ''ENOSPC''
   \<and> fst (createHttpServer exampleEnv approveRequest pendingServer) = sendJson 500 (PError ''ENOSPC'')
   \<and> disk (snd (createHttpServer exampleEnv approveRequest pendingServer))
       = disk (snd (createHttpServer exampleEnv approveRequest (pendingServer\<lparr>auditError := None\<rparr>)))"
proof -
  have h: "auditError pendingServer = Some ''ENOSPC''"
    by (simp add: pendingServer_def)
  have l: "auditTrail (snd (createHttpServer exampleEnv approveRequest (pendingServer\<lparr>auditError := None\<rparr>)))
      \<noteq> auditTrail pendingServer"
    by code_simp
  show ?thesis
    using h l C8_audit_failure [OF h, of exampleEnv approveRequest] by blast
qed

text \<open>
  As C8 is written, the caller still gets the result of its operation. It does not: the
  approval below writes the file and consumes the pending entry, and the answer is 500
  with the message of the append, where a working audit log gives 200 and the result of
  the write.
\<close>

theorem C8_approve_counterexample:
  "fst (createHttpServer exampleEnv approveRequest (pendingServer\<lparr>auditError := None\<rparr>))
     = sendJson 200 (PTool (Ok (Text (units ''written''))))
   \<and> fst (createHttpServer exampleEnv approveRequest pendingServer)
     = sendJson 500 (PError ''ENOSPC'')
   \<and> map_of (files (disk (snd (createHttpServer exampleEnv approveRequest pendingServer))))
        ''/srv/ws/n/m.txt'' = Some (File (utf8_encode (units ''abc'')))
   \<and> list (approvalManager (snd (createHttpServer exampleEnv approveRequest pendingServer))) = []"
  by code_simp

text \<open>
  C3. On the HTTP routes a write or delete request changes nothing in the workspace; an
  accepted one (status 200) is answered with the new id and leaves an entry pending under
  that id.
\<close>

lemma http_write_delete_deferred:
  assumes "req_route req = FileWrite \<or> req_route req = FileDelete"
  shows "disk (snd (createHttpServer env req srv)) = disk srv
    \<and> (status (fst (createHttpServer env req srv)) = 200 \<longrightarrow>
        fst (createHttpServer env req srv) = sendJson 200 (PPending (req_uuid req))
      \<and> (\<exists>p. get (req_uuid req) (approvalManager (snd (createHttpServer env req srv))) = Some p
            \<and> tool p = (if req_route req = FileWrite then ''file.write'' else ''file.delete'')))"
proof (cases "req_body req")
  case (Rejected e)
  then show ?thesis using assms by (auto simp: createHttpServer_def withBody_def sendJson_def)
next
  case NullBody
  then show ?thesis using assms by (auto simp: createHttpServer_def withBody_def sendJson_def)
next
  case (Fields b)
  show ?thesis
  proof (cases "truthy (body_path b)")
    case False
    then show ?thesis using assms Fields
      by (auto simp: createHttpServer_def withBody_def sendJson_def Let_def)
  next
    case True
    show ?thesis
    proof (cases "auditError srv")
      case None
      then show ?thesis
        using assms Fields True
        by (cases "body_content b")
           (auto simp: createHttpServer_def withBody_def sendJson_def logged_cases add_def get_def
             map_of_update_same Let_def)
    next
      case (Some msg)
      then show ?thesis
        using assms Fields True
        by (cases "body_content b")
           (auto simp: createHttpServer_def withBody_def sendJson_def logged_cases add_def get_def
             map_of_update_same Let_def)
    qed
  qed
qed

text \<open>
  C3, where the program departs from it. The executor of scheduled tasks, built in
  \<^verbatim>\<open>main\<close> from the same file tools, runs \<^verbatim>\<open>file.write\<close> and \<^verbatim>\<open>file.delete\<close> at
  once: \<open>runTool\<close> has no approval manager at all. A scheduled write creates the file and a
  scheduled delete removes the directory and what is in it, with nothing pending and
  nobody approving.
\<close>

theorem C3_scheduled_tool_unapproved:
  "runTool exampleEnv ''file.write''
       \<lparr>run_path = Some ''notes.txt'', run_content = Some (units ''x''), run_maxBytes = None\<rparr> exampleWorld
     = (Inr (Ok (Text (units ''written''))),
        \<lparr>files = files exampleWorld @ [(''/srv/ws/notes.txt'', File (utf8_encode (units ''x'')))],
         syscalls = [Lstat ''/srv/ws'', Lstat ''/srv/ws'', Mkdir ''/srv/ws'',
                     WriteFile ''/srv/ws/notes.txt'']\<rparr>)
   \<and> files (snd (runTool exampleEnv ''file.delete''
       \<lparr>run_path = Some ''d'', run_content = None, run_maxBytes = None\<rparr> exampleWorld))
     = [(''/'', Dir), (''/srv'', Dir), (''/srv/ws'', Dir),
        (''/srv/ws/link.txt'', Symlink ''/srv/outside.txt''), (''/srv/ws/ld'', Symlink ''/srv'')]"
  by code_simp

section \<open>The claims about the file tools and the workspace store\<close>







section \<open>The link checks\<close>



text \<open>What the loop of \<open>checkParts\<close> finds on a list of paths: the first link, unless a
  path that does not exist comes before.\<close>

fun firstLink :: "(string \<times> node) list \<Rightarrow> string list \<Rightarrow> string option" where
  "firstLink fs [] = None"
| "firstLink fs (q # qs) =
     (case map_of fs q of
        None \<Rightarrow> None
      | Some (Symlink _) \<Rightarrow> Some q
      | Some _ \<Rightarrow> firstLink fs qs)"

definition walk :: "string list \<Rightarrow> string list \<Rightarrow> string list" where
  "walk R P = map (\<lambda>P'. render (R @ P')) (tl (prefixes P))"

lemma walk_Nil: "walk R [] = []"
  by (simp add: walk_def)

lemma walk_Cons: "walk R (s # ss) = render (R @ [s]) # walk (R @ [s]) ss"
  by (cases ss) (simp_all add: walk_def comp_def)


lemma checkParts_scan:
  assumes "list_all okSeg R" and "list_all okSeg P"
  shows "fst (checkParts (render R) P w)
      = (case firstLink (files w) (walk R P) of Some l \<Rightarrow> Inl (SymlinkNotAllowed l) | None \<Rightarrow> Inr ())
    \<and> files (snd (checkParts (render R) P w)) = files w"
  using assms
proof (induction P arbitrary: R w)
  case Nil
  then show ?case by (simp add: walk_Nil)
next
  case (Cons s ss)
  then have s: "okSeg s" and ss: "list_all okSeg ss" and Rs: "list_all okSeg (R @ [s])"
    by simp_all
  have j: "posix_join [render R, s] = render (R @ [s])"
    using Cons.prems(1) s by (rule posix_join_render)
  note IH = Cons.IH [OF Rs ss]
  show ?case
  proof (cases "map_of (files w) (render (R @ [s]))")
    case None
    then show ?thesis
      by (simp add: j walk_Cons exists_path_def fs_lstat_def sys_def)
  next
    case (Some n)
    then show ?thesis
      using IH [of "sys (Lstat (render (R @ [s]))) (sys (Lstat (render (R @ [s]))) w)"]
      by (cases n)
         (simp_all add: j walk_Cons exists_path_def fs_lstat_def sys_def assertNotLinkOrReparse_def
            bind_def throw_def return_def Let_def)
  qed
qed















lemma checkParts_scan_pair:
  assumes "list_all okSeg R" and "list_all okSeg P" and "checkParts (render R) P w = (r, w')"
  shows "r = (case firstLink (files w) (walk R P) of Some l \<Rightarrow> Inl (SymlinkNotAllowed l) | None \<Rightarrow> Inr ())"
  using checkParts_scan [OF assms(1,2), of w] assms(3) by simp












subsection \<open>Writing, then reading\<close>

















end
